theory Spec2Isabelle
  imports Complex_Main "HOL-Library.Sublist" "HOL-Library.AList"
begin

section \<open>The reasoning service of open-whispr (src/services/ReasoningService.ts)\<close>

text \<open>
  A shallow embedding of the class \<^verbatim>\<open>ReasoningService\<close>. Every method becomes a function
  that takes the service's state and returns its result together with the new state; a
  thrown exception is the left summand of the result. The collaborators that the file
  imports (the model registry, the URL helpers and constants, the retry helper, the base
  class, the Electron bridge) are parameters collected in the record \<open>env\<close>. Log calls
  are left out, except where the evaluation of their arguments can throw or change the
  state.
\<close>

subsection \<open>Strings\<close>

text \<open>
  A JavaScript string is modelled as a list of code units below 256. \<^verbatim>\<open>trim\<close> removes
  the white space and line terminators of that range from both ends.
\<close>

definition isWhiteSpace :: "char \<Rightarrow> bool" where
  "isWhiteSpace c =
     (c = CHR 0x09 \<or> c = CHR 0x0A \<or> c = CHR 0x0B \<or> c = CHR 0x0C \<or> c = CHR 0x0D \<or>
      c = CHR 0x20 \<or> c = CHR 0xA0)"

definition trim :: "string \<Rightarrow> string" where
  "trim s = rev (dropWhile isWhiteSpace (rev (dropWhile isWhiteSpace s)))"

definition lowerChar :: "char \<Rightarrow> char" where
  "lowerChar c =
     (let n = (of_char c :: nat) in
      if (65 \<le> n \<and> n \<le> 90) \<or> (192 \<le> n \<and> n \<le> 222 \<and> n \<noteq> 215)
      then char_of (n + 32) else c)"

definition toLowerCase :: "string \<Rightarrow> string" where
  "toLowerCase s = map lowerChar s"

definition startsWith :: "string \<Rightarrow> string \<Rightarrow> bool" where
  "startsWith s p = prefix p s"

definition endsWith :: "string \<Rightarrow> string \<Rightarrow> bool" where
  "endsWith s p = suffix p s"

fun includesStr :: "string \<Rightarrow> string \<Rightarrow> bool" where
  "includesStr [] p = (p = [])"
| "includesStr (c # cs) p = (prefix p (c # cs) \<or> includesStr cs p)"

definition digitChar :: "nat \<Rightarrow> char" where
  "digitChar d = ''0123456789'' ! d"

fun showNat :: "nat \<Rightarrow> string" where
  "showNat n = (if n < 10 then [digitChar n] else showNat (n div 10) @ [digitChar (n mod 10)])"

declare showNat.simps [simp del]

subsection \<open>JSON values and JavaScript's view of them\<close>

text \<open>
  \<open>json\<close> is what \<^verbatim>\<open>JSON.parse\<close> returns. An object is an association list with the
  keys in insertion order, each key once; the service only looks keys up, so the order
  plays no role in what it does. A number is a rational: the service only tests numbers
  for zero and passes them on. A JavaScript value that may be \<^verbatim>\<open>undefined\<close> is a
  \<open>json option\<close>, with \<open>None\<close> for \<^verbatim>\<open>undefined\<close>.
\<close>

datatype json =
    JNull
  | JBool bool
  | JNum rat
  | JStr string
  | JArr "json list"
  | JObj "(string \<times> json) list"

datatype error =
    Error string      \<comment> \<open>\<^verbatim>\<open>new Error(message)\<close> with a string\<close>
  | ErrorOf json      \<comment> \<open>\<^verbatim>\<open>new Error(v)\<close> for a value that is not a string\<close>
  | TypeError         \<comment> \<open>property read on null or undefined, not iterable, not a function\<close>
  | SyntaxError       \<comment> \<open>\<^verbatim>\<open>res.json()\<close> or \<^verbatim>\<open>JSON.parse\<close> on text that is not JSON\<close>
  | NetworkFailure    \<comment> \<open>\<^verbatim>\<open>fetch\<close> rejects\<close>

definition mkError :: "json \<Rightarrow> error" where
  "mkError v = (case v of JStr s \<Rightarrow> Error s | _ \<Rightarrow> ErrorOf v)"

fun truthy :: "json option \<Rightarrow> bool" where
  "truthy None = False"
| "truthy (Some JNull) = False"
| "truthy (Some (JBool b)) = b"
| "truthy (Some (JNum n)) = (n \<noteq> 0)"
| "truthy (Some (JStr s)) = (s \<noteq> [])"
| "truthy (Some (JArr xs)) = True"
| "truthy (Some (JObj kvs)) = True"

text \<open>
  \<open>propOf v k\<close> is \<^verbatim>\<open>v[k]\<close> for a value that is neither null nor undefined: an own
  property of an object, an element of an array or a character of a string when \<open>k\<close> is
  an index. The inherited properties (\<^verbatim>\<open>length\<close>, the prototype's methods) are
  not modelled: the service reads none of them from a parsed value.
\<close>

definition isDigit :: "char \<Rightarrow> bool" where
  "isDigit c = (c \<in> set ''0123456789'')"

definition digitValue :: "char \<Rightarrow> int" where
  "digitValue c = int (of_char c) - 48"

text \<open>
  The array index a property key denotes, if any: a decimal numeral with no leading zero,
  below \<open>2^32 - 1\<close>.
\<close>

definition arrayIndex :: "string \<Rightarrow> nat option" where
  "arrayIndex k =
     (if k \<noteq> [] \<and> list_all isDigit k \<and> (k = ''0'' \<or> hd k \<noteq> CHR ''0'')
      then (let n = foldl (\<lambda>a c. 10 * a + digitValue c) 0 k
            in if n < 4294967295 then Some (nat n) else None)
      else None)"

fun propOf :: "json \<Rightarrow> string \<Rightarrow> json option" where
  "propOf (JObj kvs) k = map_of kvs k"
| "propOf (JArr xs) k =
     (case arrayIndex k of
        Some n \<Rightarrow> (if n < length xs then Some (xs ! n) else None)
      | None \<Rightarrow> None)"
| "propOf (JStr s) k =
     (case arrayIndex k of
        Some n \<Rightarrow> (if n < length s then Some (JStr [s ! n]) else None)
      | None \<Rightarrow> None)"
| "propOf v k = None"

text \<open>\<^verbatim>\<open>v.k\<close>: a TypeError on null and undefined.\<close>

fun getProp :: "json option \<Rightarrow> string \<Rightarrow> error + json option" where
  "getProp None k = Inl TypeError"
| "getProp (Some JNull) k = Inl TypeError"
| "getProp (Some v) k = Inr (propOf v k)"

text \<open>\<^verbatim>\<open>v?.k\<close>: undefined on null and undefined.\<close>

fun optProp :: "json option \<Rightarrow> string \<Rightarrow> json option" where
  "optProp None k = None"
| "optProp (Some JNull) k = None"
| "optProp (Some v) k = propOf v k"

fun isArray :: "json option \<Rightarrow> bool" where
  "isArray (Some (JArr xs)) = True"
| "isArray v = False"

fun isString :: "json option \<Rightarrow> bool" where
  "isString (Some (JStr s)) = True"
| "isString v = False"

text \<open>The values a \<^verbatim>\<open>for ... of\<close> loop visits; a TypeError when the value is not iterable.\<close>

fun iterate :: "json option \<Rightarrow> error + json list" where
  "iterate (Some (JArr xs)) = Inr xs"
| "iterate (Some (JStr s)) = Inr (map (\<lambda>c. JStr [c]) s)"
| "iterate v = Inl TypeError"

text \<open>\<^verbatim>\<open>v.trim()\<close> on a value known to be neither null nor undefined.\<close>

fun callTrim :: "json option \<Rightarrow> error + string" where
  "callTrim (Some (JStr s)) = Inr (trim s)"
| "callTrim v = Inl TypeError"

subsection \<open>Configuration, collaborators and state\<close>

record config =
  temperature :: "rat option"
  maxTokens :: "rat option"

datatype shape = Responses | Chat

definition shapeName :: "shape \<Rightarrow> string" where
  "shapeName t = (case t of Responses \<Rightarrow> ''responses'' | Chat \<Rightarrow> ''chat'')"

type_synonym candidate = "string \<times> shape"   \<comment> \<open>\<^verbatim>\<open>{ url, type }\<close>\<close>

datatype key_provider = Openai | Anthropic | Gemini | Groq

text \<open>\<^verbatim>\<open>provider.charAt(0).toUpperCase() + provider.slice(1)\<close>\<close>

definition capitalized :: "key_provider \<Rightarrow> string" where
  "capitalized p =
     (case p of Openai \<Rightarrow> ''Openai'' | Anthropic \<Rightarrow> ''Anthropic''
      | Gemini \<Rightarrow> ''Gemini'' | Groq \<Rightarrow> ''Groq'')"

text \<open>
  The Electron bridge \<^verbatim>\<open>window.electronAPI\<close>: what a key getter does (throw, or return a
  key, null or undefined) and what the two delegated reasoning calls answer.
\<close>

datatype key_result = KeyThrows | KeyIs "string option"

datatype ipc_result = IpcSuccess string | IpcFailure string

record electron_api =
  getKey :: "key_provider \<Rightarrow> key_result"
  processAnthropicReasoning :: "string \<Rightarrow> string \<Rightarrow> string option \<Rightarrow> config \<Rightarrow> ipc_result"
  processLocalReasoning :: "string \<Rightarrow> string \<Rightarrow> string option \<Rightarrow> config \<Rightarrow> ipc_result"

text \<open>
  What the file imports and this repository's sources do not hold: the constants
  \<^verbatim>\<open>API_ENDPOINTS\<close> and \<^verbatim>\<open>TOKEN_LIMITS\<close>, \<^verbatim>\<open>normalizeBaseUrl\<close>, \<^verbatim>\<open>buildApiUrl\<close>,
  the model registry, \<^verbatim>\<open>getReasoningPrompt\<close> of the base class, and the retry strategy
  (how many times a failed attempt is repeated, and after which errors).
\<close>

record env =
  OPENAI_BASE :: string
  GEMINI :: string
  GROQ_BASE :: string
  MIN_TOKENS :: int
  MAX_TOKENS :: int
  MIN_TOKENS_GEMINI :: int
  MAX_TOKENS_GEMINI :: int
  TOKEN_MULTIPLIER :: rat
  normalizeBaseUrl :: "string \<Rightarrow> string"
  buildApiUrl :: "string \<Rightarrow> string \<Rightarrow> string"
  getModelProvider :: "string \<Rightarrow> string"
  disableThinking :: "string \<Rightarrow> bool"
  getReasoningPrompt :: "string \<Rightarrow> string option \<Rightarrow> config \<Rightarrow> string"
  maxRetries :: nat
  shouldRetry :: "error \<Rightarrow> bool"
  electronAPI :: "electron_api option"

text \<open>
  An HTTP response carries its text and, when the text is JSON, the value it parses to;
  \<^verbatim>\<open>fetch\<close> either rejects or resolves to a response.
\<close>

record http_response =
  status :: nat
  statusText :: string
  bodyText :: string
  bodyJson :: "json option"

datatype http_result = Rejects | Responds http_response

definition ok :: "http_response \<Rightarrow> bool" where
  "ok r = (200 \<le> status r \<and> status r \<le> 299)"

text \<open>
  \<^verbatim>\<open>window.localStorage\<close>, restricted to the two keys the service uses. The preference
  item is absent (or empty), text that \<^verbatim>\<open>JSON.parse\<close> rejects, or text that parses to a
  value. Storage calls themselves are taken not to throw.
\<close>

datatype stored_item = NoItem | NotJson | Item json

record storage =
  cloudReasoningBaseUrl :: "string option"
  endpointPreferenceItem :: stored_item

text \<open>The effects a call has on the outside, in order.\<close>

datatype event =
    KeyLookup key_provider
  | Fetched string "(string \<times> string) list" json
  | AnthropicCall string string "string option" config
  | LocalCall string string "string option" config

text \<open>
  The service object, with the part of the world it acts on: the responses the network
  will give to the coming requests, and the effects so far.
\<close>

record service =
  isProcessing :: bool
  apiKeyCache :: "key_provider \<rightharpoonup> string"
  openAiEndpointPreference :: "string \<rightharpoonup> shape"
  localStorage :: "storage option"
  network :: "http_result list"
  trace :: "event list"

type_synonym 'a outcome = "(error + 'a) \<times> service"

definition fetch :: "string \<Rightarrow> (string \<times> string) list \<Rightarrow> json \<Rightarrow> service \<Rightarrow> http_result \<times> service" where
  "fetch endpoint headers body st =
     (let st' = st\<lparr>trace := trace st @ [Fetched endpoint headers body]\<rparr>
      in case network st of
           [] \<Rightarrow> (Rejects, st')
         | r # rs \<Rightarrow> (r, st'\<lparr>network := rs\<rparr>))"

subsection \<open>The OpenAI base URL and the endpoint preference\<close>

definition knownNonOpenAIUrls :: "string list" where
  "knownNonOpenAIUrls = [''api.groq.com'', ''api.anthropic.com'', ''generativelanguage.googleapis.com'']"

definition getConfiguredOpenAIBase :: "env \<Rightarrow> service \<Rightarrow> string" where
  "getConfiguredOpenAIBase env st =
     (case localStorage st of
        None \<Rightarrow> OPENAI_BASE env
      | Some ls \<Rightarrow>
          (let stored = (case cloudReasoningBaseUrl ls of None \<Rightarrow> [] | Some s \<Rightarrow> s);
               trimmed = trim stored
           in if trimmed = [] then OPENAI_BASE env
              else
                (let normalized =
                       (if normalizeBaseUrl env trimmed = [] then OPENAI_BASE env
                        else normalizeBaseUrl env trimmed);
                     isKnownNonOpenAI = list_ex (\<lambda>url. includesStr normalized url) knownNonOpenAIUrls
                 in if isKnownNonOpenAI then OPENAI_BASE env
                    else
                      (let isLocalhost =
                             (includesStr normalized ''://localhost'' \<or>
                              includesStr normalized ''://127.0.0.1'')
                       in if \<not> startsWith normalized ''https://'' \<and> \<not> isLocalhost
                          then OPENAI_BASE env
                          else normalized))))"

definition getStoredOpenAiPreference :: "string \<Rightarrow> service \<Rightarrow> shape option \<times> service" where
  "getStoredOpenAiPreference base st =
     (case openAiEndpointPreference st base of
        Some p \<Rightarrow> (Some p, st)
      | None \<Rightarrow>
          (case localStorage st of
             None \<Rightarrow> (None, st)
           | Some ls \<Rightarrow>
               (case endpointPreferenceItem ls of
                  NoItem \<Rightarrow> (None, st)
                | NotJson \<Rightarrow> (None, st)
                | Item parsed \<Rightarrow>
                    (if \<not> (case parsed of JObj kvs \<Rightarrow> True | JArr xs \<Rightarrow> True | _ \<Rightarrow> False)
                     then (None, st)
                     else
                       (let v = propOf parsed base
                        in if v = Some (JStr ''responses'')
                           then (Some Responses,
                                 st\<lparr>openAiEndpointPreference :=
                                      (openAiEndpointPreference st)(base \<mapsto> Responses)\<rparr>)
                           else if v = Some (JStr ''chat'')
                           then (Some Chat,
                                 st\<lparr>openAiEndpointPreference :=
                                      (openAiEndpointPreference st)(base \<mapsto> Chat)\<rparr>)
                           else (None, st))))))"

text \<open>
  \<^verbatim>\<open>data[base] = preference\<close> followed by \<^verbatim>\<open>JSON.stringify(data)\<close>: on an array, a key
  that is an index writes an element (the holes before it are written as null), and any
  other key is lost.
\<close>

definition assignAndStringify :: "json \<Rightarrow> string \<Rightarrow> json \<Rightarrow> json" where
  "assignAndStringify data k v =
     (case data of
        JObj kvs \<Rightarrow> JObj (AList.update k v kvs)
      | JArr xs \<Rightarrow>
          (case arrayIndex k of
             Some n \<Rightarrow> JArr ((xs @ replicate (Suc n - length xs) JNull)[n := v])
           | None \<Rightarrow> JArr xs)
      | _ \<Rightarrow> data)"

definition rememberOpenAiPreference :: "string \<Rightarrow> shape \<Rightarrow> service \<Rightarrow> service" where
  "rememberOpenAiPreference base preference st =
     (let st1 = st\<lparr>openAiEndpointPreference := (openAiEndpointPreference st)(base \<mapsto> preference)\<rparr>
      in case localStorage st1 of
           None \<Rightarrow> st1
         | Some ls \<Rightarrow>
             (case endpointPreferenceItem ls of
                NotJson \<Rightarrow> st1
              | item \<Rightarrow>
                  (let parsed = (case item of Item j \<Rightarrow> j | _ \<Rightarrow> JObj []);
                       data = (case parsed of JObj kvs \<Rightarrow> parsed | JArr xs \<Rightarrow> parsed | _ \<Rightarrow> JObj [])
                   in st1\<lparr>localStorage :=
                        Some (ls\<lparr>endpointPreferenceItem :=
                          Item (assignAndStringify data base (JStr (shapeName preference)))\<rparr>)\<rparr>)))"

definition getOpenAIEndpointCandidates :: "env \<Rightarrow> string \<Rightarrow> service \<Rightarrow> candidate list \<times> service" where
  "getOpenAIEndpointCandidates env base st =
     (let lower = toLowerCase base
      in if endsWith lower ''/responses'' \<or> endsWith lower ''/chat/completions''
         then ([(base, if endsWith lower ''/responses'' then Responses else Chat)], st)
         else
           (case getStoredOpenAiPreference base st of
              (preference, st') \<Rightarrow>
                if preference = Some Chat
                then ([(buildApiUrl env base ''/chat/completions'', Chat)], st')
                else ([(buildApiUrl env base ''/responses'', Responses),
                       (buildApiUrl env base ''/chat/completions'', Chat)], st')))"

subsection \<open>API keys\<close>

text \<open>
  Modelled from the spec: \<^verbatim>\<open>SecureCache\<close> (utils/SecureCache is not among the sources) is
  a store of one key per provider, read with \<^verbatim>\<open>get\<close> and written with \<^verbatim>\<open>set\<close>; its
  expiry of old entries is not modelled.
\<close>

definition getApiKey :: "env \<Rightarrow> key_provider \<Rightarrow> service \<Rightarrow> string outcome" where
  "getApiKey env provider st0 =
     (let st = st0\<lparr>trace := trace st0 @ [KeyLookup provider]\<rparr>;
          cached = (case apiKeyCache st provider of Some k \<Rightarrow> (if k = [] then None else Some k)
                    | None \<Rightarrow> None)
      in case cached of
           Some k \<Rightarrow> (Inr k, st)
         | None \<Rightarrow>
             (let fetched =
                    (case electronAPI env of
                       None \<Rightarrow> None
                     | Some api \<Rightarrow>
                         (case getKey api provider of
                            KeyThrows \<Rightarrow> None
                          | KeyIs None \<Rightarrow> None
                          | KeyIs (Some k) \<Rightarrow> (if k = [] then None else Some k)))
              in case fetched of
                   Some k \<Rightarrow> (Inr k, st\<lparr>apiKeyCache := (apiKeyCache st)(provider \<mapsto> k)\<rparr>)
                 | None \<Rightarrow> (Inl (Error (capitalized provider @ '' API key not configured'')), st)))"

subsection \<open>Retrying\<close>

text \<open>
  Modelled from the spec: \<^verbatim>\<open>withRetry\<close> and \<^verbatim>\<open>createApiRetryStrategy\<close> (utils/retry is not
  among the sources) run the operation and, when it fails, run it again a bounded number
  of times while the strategy calls the failure retryable. The delay between attempts is
  not modelled.
\<close>

primrec withRetry :: "nat \<Rightarrow> (error \<Rightarrow> bool) \<Rightarrow> (service \<Rightarrow> 'a outcome) \<Rightarrow> service \<Rightarrow> 'a outcome" where
  "withRetry 0 retryable operation st = operation st"
| "withRetry (Suc n) retryable operation st =
     (case operation st of
        (Inr v, st') \<Rightarrow> (Inr v, st')
      | (Inl e, st') \<Rightarrow>
          (if retryable e then withRetry n retryable operation st' else (Inl e, st')))"

subsection \<open>The OpenAI driver\<close>

definition systemPrompt :: string where
  "systemPrompt = ''You are a dictation assistant. Clean up text by fixing grammar and punctuation. Output ONLY the cleaned text without any explanations, options, or commentary.''"

definition buildMessages :: "string \<Rightarrow> json" where
  "buildMessages userPrompt =
     JArr [JObj [(''role'', JStr ''system''), (''content'', JStr systemPrompt)],
           JObj [(''role'', JStr ''user''), (''content'', JStr userPrompt)]]"

definition bearerHeaders :: "string \<Rightarrow> (string \<times> string) list" where
  "bearerHeaders apiKey =
     [(''Content-Type'', ''application/json''), (''Authorization'', ''Bearer '' @ apiKey)]"

text \<open>\<^verbatim>\<open>config.temperature || 0.3\<close>\<close>

definition temperatureOr :: "config \<Rightarrow> rat" where
  "temperatureOr cfg =
     (case temperature cfg of Some t \<Rightarrow> (if t \<noteq> 0 then t else 3 / 10) | None \<Rightarrow> 3 / 10)"

text \<open>\<^verbatim>\<open>config.temperature ?? 0.3\<close>\<close>

definition temperatureNullish :: "config \<Rightarrow> rat" where
  "temperatureNullish cfg = (case temperature cfg of Some t \<Rightarrow> t | None \<Rightarrow> 3 / 10)"

definition isOlderModel :: "string \<Rightarrow> bool" where
  "isOlderModel model = (model \<noteq> [] \<and> (startsWith model ''gpt-4'' \<or> startsWith model ''gpt-3''))"

definition openAiRequestBody :: "string \<Rightarrow> json \<Rightarrow> config \<Rightarrow> shape \<Rightarrow> json" where
  "openAiRequestBody model messages cfg type =
     (if type = Responses
      then JObj [(''model'', JStr model), (''input'', messages), (''store'', JBool False)]
      else JObj ([(''model'', JStr model), (''messages'', messages)] @
                 (if isOlderModel model then [(''temperature'', JNum (temperatureOr cfg))] else [])))"

text \<open>
  The message of a response that is not ok:
  \<^verbatim>\<open>errorData.error?.message || errorData.message || `OpenAI API error: ${res.status}`\<close>,
  where \<^verbatim>\<open>errorData\<close> is the body, or \<^verbatim>\<open>{ error: res.statusText }\<close> when the body is
  not JSON.
\<close>

definition openAiErrorMessage :: "http_response \<Rightarrow> error + json" where
  "openAiErrorMessage res =
     (let errorData = (case bodyJson res of Some j \<Rightarrow> j
                       | None \<Rightarrow> JObj [(''error'', JStr (statusText res))])
      in case getProp (Some errorData) ''error'' of
           Inl e \<Rightarrow> Inl e
         | Inr err \<Rightarrow>
             (case (if truthy (optProp err ''message'') then optProp err ''message''
                    else propOf errorData ''message'') of
                Some m \<Rightarrow> (if truthy (Some m) then Inr m
                           else Inr (JStr (''OpenAI API error: '' @ showNat (status res))))
              | None \<Rightarrow> Inr (JStr (''OpenAI API error: '' @ showNat (status res)))))"

text \<open>
  One run of the loop over the endpoint candidates (the body of the function given to
  \<^verbatim>\<open>withRetry\<close>). An exception inside the \<^verbatim>\<open>try\<close> reaches the \<^verbatim>\<open>catch\<close>, which
  goes on to the next candidate for the responses shape and throws again for the chat
  shape. The promise of \<^verbatim>\<open>return res.json()\<close> is not awaited inside the \<^verbatim>\<open>try\<close>, so
  its rejection leaves the loop.
\<close>

fun tryEndpoints ::
  "string \<Rightarrow> string \<Rightarrow> json \<Rightarrow> config \<Rightarrow> string \<Rightarrow> candidate list \<Rightarrow> error option \<Rightarrow> service \<Rightarrow> json outcome"
where
  "tryEndpoints apiKey model messages cfg openAiBase [] lastError st =
     (Inl (case lastError of Some e \<Rightarrow> e | None \<Rightarrow> Error ''No OpenAI endpoint responded''), st)"
| "tryEndpoints apiKey model messages cfg openAiBase ((endpoint, type) # rest) lastError st =
     (case fetch endpoint (bearerHeaders apiKey) (openAiRequestBody model messages cfg type) st of
        (Rejects, st1) \<Rightarrow>
          (if type = Responses
           then tryEndpoints apiKey model messages cfg openAiBase rest (Some NetworkFailure) st1
           else (Inl NetworkFailure, st1))
      | (Responds res, st1) \<Rightarrow>
          (if \<not> ok res then
             (case openAiErrorMessage res of
                Inl e \<Rightarrow>
                  (if type = Responses
                   then tryEndpoints apiKey model messages cfg openAiBase rest (Some e) st1
                   else (Inl e, st1))
              | Inr errorMessage \<Rightarrow>
                  (if (status res = 404 \<or> status res = 405) \<and> type = Responses
                   then tryEndpoints apiKey model messages cfg openAiBase rest
                          (Some (mkError errorMessage))
                          (rememberOpenAiPreference openAiBase Chat st1)
                   else if type = Responses
                   then tryEndpoints apiKey model messages cfg openAiBase rest
                          (Some (mkError errorMessage)) st1
                   else (Inl (mkError errorMessage), st1)))
           else
             (let st2 = rememberOpenAiPreference openAiBase type st1
              in case bodyJson res of
                   None \<Rightarrow> (Inl SyntaxError, st2)
                 | Some j \<Rightarrow> (Inr j, st2))))"

text \<open>The text of a responses-shape answer: the scan of \<^verbatim>\<open>item.content\<close>.\<close>

fun scanContent :: "json list \<Rightarrow> error + string" where
  "scanContent [] = Inr []"
| "scanContent (content # contents) =
     (case getProp (Some content) ''type'' of
        Inl e \<Rightarrow> Inl e
      | Inr t \<Rightarrow>
          (if t = Some (JStr ''output_text'') \<and> truthy (propOf content ''text'')
           then callTrim (propOf content ''text'')
           else scanContent contents))"

fun scanOutput :: "json list \<Rightarrow> error + string" where
  "scanOutput [] = Inr []"
| "scanOutput (item # items) =
     (case getProp (Some item) ''type'' of
        Inl e \<Rightarrow> Inl e
      | Inr t \<Rightarrow>
          (if t = Some (JStr ''message'') \<and> truthy (propOf item ''content'')
           then (case iterate (propOf item ''content'') of
                   Inl e \<Rightarrow> Inl e
                 | Inr contents \<Rightarrow>
                     (case scanContent contents of
                        Inl e \<Rightarrow> Inl e
                      | Inr responseText \<Rightarrow>
                          (if responseText \<noteq> [] then Inr responseText else scanOutput items)))
           else scanOutput items))"

text \<open>The text of a chat-shape answer; nothing here can throw.\<close>

fun scanParts :: "json list \<Rightarrow> string" where
  "scanParts [] = []"
| "scanParts (part # parts) =
     (case optProp (Some part) ''text'' of
        Some (JStr s) \<Rightarrow> (if trim s \<noteq> [] then trim s else scanParts parts)
      | _ \<Rightarrow> scanParts parts)"

definition nullish :: "json option \<Rightarrow> bool" where
  "nullish v = (v = None \<or> v = Some JNull)"

fun scanChoices :: "json list \<Rightarrow> string" where
  "scanChoices [] = []"
| "scanChoices (choice # choices) =
     (let message = (if nullish (optProp (Some choice) ''message'')
                     then optProp (Some choice) ''delta''
                     else optProp (Some choice) ''message'');
          content = optProp message ''content''
      in case (case content of Some (JStr s) \<Rightarrow> trim s | _ \<Rightarrow> []) of
           c # cs \<Rightarrow> c # cs
         | [] \<Rightarrow>
             (case (case content of Some (JArr parts) \<Rightarrow> scanParts parts | _ \<Rightarrow> []) of
                c # cs \<Rightarrow> c # cs
              | [] \<Rightarrow>
                  (case (case optProp (Some choice) ''text'' of Some (JStr s) \<Rightarrow> trim s | _ \<Rightarrow> []) of
                     c # cs \<Rightarrow> c # cs
                   | [] \<Rightarrow> scanChoices choices)))"

text \<open>
  Everything \<^verbatim>\<open>processWithOpenAI\<close> does with the parsed response. The two log calls
  are part of it where their arguments can throw: \<^verbatim>\<open>response.output.map((item) => item.type)\<close>
  and \<^verbatim>\<open>response.usage\<close>.
\<close>

fun itemTypes :: "json list \<Rightarrow> error + unit" where
  "itemTypes [] = Inr ()"
| "itemTypes (item # items) =
     (case getProp (Some item) ''type'' of Inl e \<Rightarrow> Inl e | Inr t \<Rightarrow> itemTypes items)"

definition extractOpenAiText :: "json \<Rightarrow> string \<Rightarrow> error + string" where
  "extractOpenAiText response text =
     (let isResponsesApi = isArray (optProp (Some response) ''output'');
          isChatCompletions = isArray (optProp (Some response) ''choices'');
          output = (case optProp (Some response) ''output'' of Some (JArr xs) \<Rightarrow> xs | _ \<Rightarrow> []);
          choices = (case optProp (Some response) ''choices'' of Some (JArr xs) \<Rightarrow> xs | _ \<Rightarrow> [])
      in case (if isResponsesApi then itemTypes output else Inr ()) of
           Inl e \<Rightarrow> Inl e
         | Inr u \<Rightarrow>
             (case getProp (Some response) ''usage'' of
                Inl e \<Rightarrow> Inl e
              | Inr usage \<Rightarrow>
                  (case (if isResponsesApi then scanOutput output else Inr []) of
                     Inl e \<Rightarrow> Inl e
                   | Inr t1 \<Rightarrow>
                       (let t2 = (if t1 = [] \<and> isString (optProp (Some response) ''output_text'')
                                  then (case optProp (Some response) ''output_text'' of
                                          Some (JStr s) \<Rightarrow> trim s | _ \<Rightarrow> t1)
                                  else t1);
                            t3 = (if t2 = [] \<and> isChatCompletions then scanChoices choices else t2)
                        in if t3 = [] then Inr text else Inr t3))))"

definition processWithOpenAI ::
  "env \<Rightarrow> string \<Rightarrow> string \<Rightarrow> string option \<Rightarrow> config \<Rightarrow> service \<Rightarrow> string outcome"
where
  "processWithOpenAI env text model agentName cfg st =
     (if isProcessing st then (Inl (Error ''Already processing a request''), st)
      else
        (case getApiKey env Openai st of
           (Inl e, st1) \<Rightarrow> (Inl e, st1)
         | (Inr apiKey, st1) \<Rightarrow>
             (let st2 = st1\<lparr>isProcessing := True\<rparr>;
                  messages = buildMessages (getReasoningPrompt env text agentName cfg);
                  openAiBase = getConfiguredOpenAIBase env st2
              in case getOpenAIEndpointCandidates env openAiBase st2 of
                   (endpointCandidates, st3) \<Rightarrow>
                     (let st4 = snd (getStoredOpenAiPreference openAiBase st3)
                      in case withRetry (maxRetries env) (shouldRetry env)
                                (tryEndpoints apiKey model messages cfg openAiBase
                                   endpointCandidates None) st4 of
                           (Inl e, st5) \<Rightarrow> (Inl e, st5\<lparr>isProcessing := False\<rparr>)
                         | (Inr response, st5) \<Rightarrow>
                             (extractOpenAiText response text, st5\<lparr>isProcessing := False\<rparr>)))))"

subsection \<open>Token budget\<close>

text \<open>
  Modelled from the spec: \<^verbatim>\<open>calculateMaxTokens\<close> is a method of the base class
  (BaseReasoningService is not among the sources). The spec gives it as
  \<^verbatim>\<open>max(providerFloor, min(ceil(textLength * multiplier), providerCeiling))\<close>.
\<close>

definition calculateMaxTokens :: "nat \<Rightarrow> int \<Rightarrow> int \<Rightarrow> rat \<Rightarrow> int" where
  "calculateMaxTokens textLength minLimit maxLimit multiplier =
     max minLimit (min \<lceil>of_nat textLength * multiplier\<rceil> maxLimit)"

text \<open>\<^verbatim>\<open>config.maxTokens || computed\<close>\<close>

definition maxTokensOr :: "config \<Rightarrow> int \<Rightarrow> rat" where
  "maxTokensOr cfg computed =
     (case maxTokens cfg of Some m \<Rightarrow> (if m \<noteq> 0 then m else of_int computed)
      | None \<Rightarrow> of_int computed)"

definition chatMaxTokens :: "env \<Rightarrow> string \<Rightarrow> config \<Rightarrow> rat" where
  "chatMaxTokens env text cfg =
     maxTokensOr cfg
       (max 4096 (calculateMaxTokens (length text) (MIN_TOKENS env) (MAX_TOKENS env)
                    (TOKEN_MULTIPLIER env)))"

definition geminiMaxOutputTokens :: "env \<Rightarrow> string \<Rightarrow> config \<Rightarrow> rat" where
  "geminiMaxOutputTokens env text cfg =
     maxTokensOr cfg
       (max 2000 (calculateMaxTokens (length text) (MIN_TOKENS_GEMINI env) (MAX_TOKENS_GEMINI env)
                    (TOKEN_MULTIPLIER env)))"

subsection \<open>The chat-completions helper and the Groq driver\<close>

text \<open>
  The message of a response that is not ok, for Groq and Gemini:
  \<^verbatim>\<open>errorData.error?.message || errorData.message || errorData.error || `${providerName} API error: ${res.status}`\<close>,
  where \<^verbatim>\<open>errorData\<close> is the parsed body, or \<^verbatim>\<open>{ error: errorText || res.statusText }\<close>.
\<close>

definition apiErrorMessage :: "string \<Rightarrow> http_response \<Rightarrow> error + json" where
  "apiErrorMessage providerName res =
     (let errorData = (case bodyJson res of Some j \<Rightarrow> j
                       | None \<Rightarrow> JObj [(''error'', JStr (if bodyText res \<noteq> [] then bodyText res
                                                          else statusText res))])
      in case getProp (Some errorData) ''error'' of
           Inl e \<Rightarrow> Inl e
         | Inr err \<Rightarrow>
             (case (if truthy (optProp err ''message'') then optProp err ''message''
                    else if truthy (propOf errorData ''message'') then propOf errorData ''message''
                    else err) of
                Some m \<Rightarrow> (if truthy (Some m) then Inr m
                           else Inr (JStr (providerName @ '' API error: '' @ showNat (status res))))
              | None \<Rightarrow> Inr (JStr (providerName @ '' API error: '' @ showNat (status res)))))"

text \<open>One attempt of a plain request: the function given to \<^verbatim>\<open>withRetry\<close>.\<close>

definition postJson ::
  "string \<Rightarrow> string \<Rightarrow> (string \<times> string) list \<Rightarrow> json \<Rightarrow> service \<Rightarrow> json outcome"
where
  "postJson providerName endpoint headers body st =
     (case fetch endpoint headers body st of
        (Rejects, st1) \<Rightarrow> (Inl NetworkFailure, st1)
      | (Responds res, st1) \<Rightarrow>
          (if \<not> ok res then
             (case apiErrorMessage providerName res of
                Inl e \<Rightarrow> (Inl e, st1)
              | Inr errorMessage \<Rightarrow> (Inl (mkError errorMessage), st1))
           else (case bodyJson res of
                   None \<Rightarrow> (Inl SyntaxError, st1)
                 | Some j \<Rightarrow> (Inr j, st1))))"

definition chatRequestBody :: "env \<Rightarrow> string \<Rightarrow> string \<Rightarrow> string option \<Rightarrow> config \<Rightarrow> json" where
  "chatRequestBody env model text agentName cfg =
     JObj ([(''model'', JStr model),
            (''messages'', buildMessages (getReasoningPrompt env text agentName cfg)),
            (''temperature'', JNum (temperatureNullish cfg)),
            (''max_tokens'', JNum (chatMaxTokens env text cfg))] @
           (if disableThinking env model
            then [(''chat_template_kwargs'', JObj [(''enable_thinking'', JBool False)])]
            else []))"

text \<open>
  \<^verbatim>\<open>choice.message?.content?.trim() || ""\<close>: undefined when the chain ends early, a
  TypeError when the content is neither nullish nor a string.
\<close>

definition chatResponseText :: "string \<Rightarrow> json \<Rightarrow> error + string" where
  "chatResponseText providerName response =
     (case getProp (Some response) ''choices'' of
        Inl e \<Rightarrow> Inl e
      | Inr choices \<Rightarrow>
          (if \<not> truthy choices \<or> \<not> truthy (optProp choices ''0'')
           then Inl (Error (''Invalid response structure from '' @ providerName @ '' API''))
           else
             (let content = optProp (optProp (optProp choices ''0'') ''message'') ''content''
              in case (if nullish content then Inr [] else callTrim content) of
                   Inl e \<Rightarrow> Inl e
                 | Inr responseText \<Rightarrow>
                     (if responseText = []
                      then Inl (Error (providerName @ '' returned empty response''))
                      else Inr responseText))))"

definition callChatCompletionsApi ::
  "env \<Rightarrow> string \<Rightarrow> string \<Rightarrow> string \<Rightarrow> string \<Rightarrow> string option \<Rightarrow> config \<Rightarrow> string \<Rightarrow> service \<Rightarrow>
   string outcome"
where
  "callChatCompletionsApi env endpoint apiKey model text agentName cfg providerName st =
     (case withRetry (maxRetries env) (shouldRetry env)
             (postJson providerName endpoint (bearerHeaders apiKey)
                (chatRequestBody env model text agentName cfg)) st of
        (Inl e, st1) \<Rightarrow> (Inl e, st1)
      | (Inr response, st1) \<Rightarrow> (chatResponseText providerName response, st1))"

definition processWithGroq ::
  "env \<Rightarrow> string \<Rightarrow> string \<Rightarrow> string option \<Rightarrow> config \<Rightarrow> service \<Rightarrow> string outcome"
where
  "processWithGroq env text model agentName cfg st =
     (if isProcessing st then (Inl (Error ''Already processing a request''), st)
      else
        (case getApiKey env Groq st of
           (Inl e, st1) \<Rightarrow> (Inl e, st1)
         | (Inr apiKey, st1) \<Rightarrow>
             (case callChatCompletionsApi env (buildApiUrl env (GROQ_BASE env) ''/chat/completions'')
                     apiKey model text agentName cfg ''Groq'' (st1\<lparr>isProcessing := True\<rparr>) of
                (r, st2) \<Rightarrow> (r, st2\<lparr>isProcessing := False\<rparr>))))"

subsection \<open>The Gemini driver\<close>

definition geminiRequestBody :: "env \<Rightarrow> string \<Rightarrow> string option \<Rightarrow> config \<Rightarrow> json" where
  "geminiRequestBody env text agentName cfg =
     JObj [(''contents'',
             JArr [JObj [(''parts'',
               JArr [JObj [(''text'',
                 JStr (systemPrompt @ [CHR 0x0A, CHR 0x0A] @ getReasoningPrompt env text agentName cfg))]])]]),
           (''generationConfig'',
             JObj [(''temperature'', JNum (temperatureOr cfg)),
                   (''maxOutputTokens'', JNum (geminiMaxOutputTokens env text cfg))])]"

definition geminiEndpoint :: "env \<Rightarrow> string \<Rightarrow> string" where
  "geminiEndpoint env model = GEMINI env @ ''/models/'' @ model @ '':generateContent''"

definition geminiHeaders :: "string \<Rightarrow> (string \<times> string) list" where
  "geminiHeaders apiKey = [(''Content-Type'', ''application/json''), (''x-goog-api-key'', apiKey)]"

definition tokenLimitMessage :: string where
  "tokenLimitMessage = ''Gemini reached token limit before generating response. Try a shorter input or increase max tokens.''"

text \<open>\<^verbatim>\<open>candidate.content?.parts?.[0]?.text\<close>, for a candidate that is truthy.\<close>

definition candidateText :: "json option \<Rightarrow> json option" where
  "candidateText candidate = optProp (optProp (optProp (optProp candidate ''content'') ''parts'') ''0'') ''text''"

definition geminiResponseText :: "json \<Rightarrow> error + string" where
  "geminiResponseText response =
     (case getProp (Some response) ''candidates'' of
        Inl e \<Rightarrow> Inl e
      | Inr candidates \<Rightarrow>
          (if \<not> truthy candidates \<or> \<not> truthy (optProp candidates ''0'')
           then Inl (Error ''Invalid response structure from Gemini API'')
           else
             (let candidate = optProp candidates ''0''
              in if \<not> truthy (candidateText candidate)
                 then (if optProp candidate ''finishReason'' = Some (JStr ''MAX_TOKENS'')
                       then Inl (Error tokenLimitMessage)
                       else Inl (Error ''Gemini returned empty response''))
                 else callTrim (candidateText candidate))))"

definition processWithGemini ::
  "env \<Rightarrow> string \<Rightarrow> string \<Rightarrow> string option \<Rightarrow> config \<Rightarrow> service \<Rightarrow> string outcome"
where
  "processWithGemini env text model agentName cfg st =
     (if isProcessing st then (Inl (Error ''Already processing a request''), st)
      else
        (case getApiKey env Gemini st of
           (Inl e, st1) \<Rightarrow> (Inl e, st1)
         | (Inr apiKey, st1) \<Rightarrow>
             (case withRetry (maxRetries env) (shouldRetry env)
                     (postJson ''Gemini'' (geminiEndpoint env model) (geminiHeaders apiKey)
                        (geminiRequestBody env text agentName cfg))
                     (st1\<lparr>isProcessing := True\<rparr>) of
                (Inl e, st2) \<Rightarrow> (Inl e, st2\<lparr>isProcessing := False\<rparr>)
              | (Inr response, st2) \<Rightarrow>
                  (geminiResponseText response, st2\<lparr>isProcessing := False\<rparr>))))"

subsection \<open>The delegated drivers\<close>

definition processWithAnthropic ::
  "env \<Rightarrow> string \<Rightarrow> string \<Rightarrow> string option \<Rightarrow> config \<Rightarrow> service \<Rightarrow> string outcome"
where
  "processWithAnthropic env text model agentName cfg st =
     (case electronAPI env of
        Some api \<Rightarrow>
          (let st1 = st\<lparr>trace := trace st @ [AnthropicCall text model agentName cfg]\<rparr>
           in case processAnthropicReasoning api text model agentName cfg of
                IpcSuccess t \<Rightarrow> (Inr t, st1)
              | IpcFailure e \<Rightarrow> (Inl (Error e), st1))
      | None \<Rightarrow> (Inl (Error ''Anthropic reasoning is not available in this environment''), st))"

definition processWithLocal ::
  "env \<Rightarrow> string \<Rightarrow> string \<Rightarrow> string option \<Rightarrow> config \<Rightarrow> service \<Rightarrow> string outcome"
where
  "processWithLocal env text model agentName cfg st =
     (case electronAPI env of
        Some api \<Rightarrow>
          (let st1 = st\<lparr>trace := trace st @ [LocalCall text model agentName cfg]\<rparr>
           in case processLocalReasoning api text model agentName cfg of
                IpcSuccess t \<Rightarrow> (Inr t, st1)
              | IpcFailure e \<Rightarrow> (Inl (Error e), st1))
      | None \<Rightarrow> (Inl (Error ''Local reasoning is not available in this environment''), st))"

subsection \<open>The entry point\<close>

definition processText ::
  "env \<Rightarrow> string \<Rightarrow> string \<Rightarrow> string option \<Rightarrow> config \<Rightarrow> service \<Rightarrow> string outcome"
where
  "processText env text model agentName cfg st =
     (let trimmedModel = trim model
      in if trimmedModel = [] then (Inl (Error ''No reasoning model selected''), st)
         else
           (let provider = getModelProvider env trimmedModel
            in if provider = ''openai'' then processWithOpenAI env text trimmedModel agentName cfg st
               else if provider = ''anthropic'' then processWithAnthropic env text trimmedModel agentName cfg st
               else if provider = ''local'' then processWithLocal env text trimmedModel agentName cfg st
               else if provider = ''gemini'' then processWithGemini env text trimmedModel agentName cfg st
               else if provider = ''groq'' then processWithGroq env text model agentName cfg st
               else (Inl (Error (''Unsupported reasoning provider: '' @ provider)), st)))"

subsection \<open>A concrete environment\<close>

text \<open>
  An environment and states on which the definitions can be run. The constants and the
  registry of \<open>exampleEnv\<close> are sample values: the URL helpers are the identity and
  plain concatenation, every key getter answers \<open>sk-test\<close>, every delegated call answers
  \<open>done\<close>, and a failed attempt is repeated up to twice.
\<close>

definition exampleEnv :: env where
  "exampleEnv =
     \<lparr>OPENAI_BASE = ''https://api.openai.com/v1'',
      GEMINI = ''https://generativelanguage.googleapis.com/v1beta'',
      GROQ_BASE = ''https://api.groq.com/openai/v1'',
      MIN_TOKENS = 100, MAX_TOKENS = 2048, MIN_TOKENS_GEMINI = 2000, MAX_TOKENS_GEMINI = 8192,
      TOKEN_MULTIPLIER = 2,
      normalizeBaseUrl = (\<lambda>s. s),
      buildApiUrl = (\<lambda>b p. b @ p),
      getModelProvider = (\<lambda>m. if startsWith m ''gpt'' then ''openai''
                               else if startsWith m ''claude'' then ''anthropic''
                               else if startsWith m ''gemini'' then ''gemini''
                               else if startsWith m ''llama'' then ''groq''
                               else if startsWith m ''qwen'' then ''local'' else ''mystery''),
      disableThinking = (\<lambda>m. False),
      getReasoningPrompt = (\<lambda>t a c. t),
      maxRetries = 2,
      shouldRetry = (\<lambda>e. True),
      electronAPI = Some \<lparr>getKey = (\<lambda>p. KeyIs (Some ''sk-test'')),
                          processAnthropicReasoning = (\<lambda>t m a c. IpcSuccess ''done''),
                          processLocalReasoning = (\<lambda>t m a c. IpcSuccess ''done'')\<rparr>\<rparr>"

text \<open>A service at rest, with the responses the network holds ready.\<close>

definition idle :: "http_result list \<Rightarrow> service" where
  "idle rs =
     \<lparr>isProcessing = False, apiKeyCache = Map.empty, openAiEndpointPreference = Map.empty,
      localStorage = Some \<lparr>cloudReasoningBaseUrl = None, endpointPreferenceItem = NoItem\<rparr>,
      network = rs, trace = []\<rparr>"

text \<open>The same service while another direct call is in flight.\<close>

definition busy :: service where
  "busy = (idle [])\<lparr>isProcessing := True\<rparr>"

definition reply :: "nat \<Rightarrow> json \<Rightarrow> http_result" where
  "reply code j = Responds \<lparr>status = code, statusText = [], bodyText = [], bodyJson = Some j\<rparr>"

definition noConfig :: config where
  "noConfig = \<lparr>temperature = None, maxTokens = None\<rparr>"

text \<open>A service whose storage holds a custom base URL.\<close>

definition withCustomBase :: "string \<Rightarrow> service" where
  "withCustomBase u = (idle [])\<lparr>localStorage :=
      Some \<lparr>cloudReasoningBaseUrl = Some u, endpointPreferenceItem = NoItem\<rparr>\<rparr>"

text \<open>Two Gemini answers without text: one cut off by the token limit, one merely empty.\<close>

definition maxTokensReply :: json where
  "maxTokensReply =
     JObj [(''candidates'', JArr [JObj [(''finishReason'', JStr ''MAX_TOKENS''), (''content'', JObj [])]])]"

definition emptyPartsReply :: json where
  "emptyPartsReply =
     JObj [(''candidates'',
            JArr [JObj [(''finishReason'', JStr ''STOP''),
                        (''content'', JObj [(''parts'', JArr [JObj [(''text'', JStr [])]])])]])]"

text \<open>
  What the block for a response that is not ok throws, or keeps as \<^verbatim>\<open>lastError\<close>:
  \<^verbatim>\<open>new Error(errorMessage)\<close>, or the TypeError of reading the message.
\<close>

definition openAiFailure :: "http_response \<Rightarrow> error" where
  "openAiFailure res = (case openAiErrorMessage res of Inl e \<Rightarrow> e | Inr m \<Rightarrow> mkError m)"

text \<open>
  The test at the head of \<open>getOpenAIEndpointCandidates\<close>, and the URLs of the requests
  in a trace.
\<close>

definition hasShapeSuffix :: "string \<Rightarrow> bool" where
  "hasShapeSuffix base =
     (endsWith (toLowerCase base) ''/responses'' \<or> endsWith (toLowerCase base) ''/chat/completions'')"

fun requestUrls :: "event list \<Rightarrow> string list" where
  "requestUrls [] = []"
| "requestUrls (Fetched u h b # es) = u # requestUrls es"
| "requestUrls (e # es) = requestUrls es"

text \<open>The invariant of a call whose base URL is marked chat.\<close>

definition chatOnly :: "env \<Rightarrow> string \<Rightarrow> string list \<Rightarrow> service \<Rightarrow> bool" where
  "chatOnly env base urls st =
     (fst (getStoredOpenAiPreference base st) = Some Chat \<and>
      getConfiguredOpenAIBase env st = base \<and>
      (\<exists>k. requestUrls (trace st) = urls @ replicate k (buildApiUrl env base ''/chat/completions'')))"

text \<open>A base URL that names the responses endpoint itself, and the default base URL.\<close>

definition responsesBase :: string where
  "responsesBase = ''https://proxy.example/v1/responses''"

definition defaultBase :: string where
  "defaultBase = ''https://api.openai.com/v1''"

text \<open>A service at rest whose default base URL has been marked chat.\<close>

definition markedChat :: service where
  "markedChat = rememberOpenAiPreference defaultBase Chat (idle [reply 200 (JObj [])])"

section \<open>Properties\<close>

subsection \<open>The processing guard\<close>

lemma getApiKey_isProcessing:
  "isProcessing (snd (getApiKey env provider st)) = isProcessing st"
  by (simp add: getApiKey_def Let_def split: option.split key_result.split)

lemma guard_rejects:
  assumes "isProcessing st"
  shows "processWithOpenAI env text model agentName cfg st =
           (Inl (Error ''Already processing a request''), st)"
    and "processWithGemini env text model agentName cfg st =
           (Inl (Error ''Already processing a request''), st)"
    and "processWithGroq env text model agentName cfg st =
           (Inl (Error ''Already processing a request''), st)"
  using assms by (simp_all add: processWithOpenAI_def processWithGemini_def processWithGroq_def)

lemma openai_clears_guard:
  "\<not> isProcessing st \<Longrightarrow> \<not> isProcessing (snd (processWithOpenAI env text model agentName cfg st))"
  using getApiKey_isProcessing [of env Openai st]
  by (auto simp add: processWithOpenAI_def Let_def split: prod.splits sum.splits)

lemma gemini_clears_guard:
  "\<not> isProcessing st \<Longrightarrow> \<not> isProcessing (snd (processWithGemini env text model agentName cfg st))"
  using getApiKey_isProcessing [of env Gemini st]
  by (auto simp add: processWithGemini_def Let_def split: prod.splits sum.splits)

lemma groq_clears_guard:
  "\<not> isProcessing st \<Longrightarrow> \<not> isProcessing (snd (processWithGroq env text model agentName cfg st))"
  using getApiKey_isProcessing [of env Groq st]
  by (auto simp add: processWithGroq_def Let_def split: prod.splits sum.splits)

lemma anthropic_ignores_guard:
  "processWithAnthropic env text model agentName cfg (st\<lparr>isProcessing := b\<rparr>) =
     (fst (processWithAnthropic env text model agentName cfg st),
      (snd (processWithAnthropic env text model agentName cfg st))\<lparr>isProcessing := b\<rparr>)"
  by (simp add: processWithAnthropic_def Let_def split: option.split ipc_result.split)

lemma local_ignores_guard:
  "processWithLocal env text model agentName cfg (st\<lparr>isProcessing := b\<rparr>) =
     (fst (processWithLocal env text model agentName cfg st),
      (snd (processWithLocal env text model agentName cfg st))\<lparr>isProcessing := b\<rparr>)"
  by (simp add: processWithLocal_def Let_def split: option.split ipc_result.split)

text \<open>
  Claim C1, as the source has it. A direct driver (OpenAI, Gemini, Groq) begun while
  \<open>isProcessing\<close> is set fails at once with the error \<open>Already processing a request\<close>
  and leaves the state as it was: no key is looked up and no request is sent. A direct
  driver begun while the guard is clear returns with the guard clear, whatever happened
  in between. The delegated drivers (Anthropic, Local) never read or write the guard:
  their result does not depend on it and they hand it back as they found it.
\<close>

theorem guard_of_direct_drivers:
  "(isProcessing st \<longrightarrow>
      processWithOpenAI env text model agentName cfg st =
        (Inl (Error ''Already processing a request''), st) \<and>
      processWithGemini env text model agentName cfg st =
        (Inl (Error ''Already processing a request''), st) \<and>
      processWithGroq env text model agentName cfg st =
        (Inl (Error ''Already processing a request''), st)) \<and>
   (\<not> isProcessing st \<longrightarrow>
      \<not> isProcessing (snd (processWithOpenAI env text model agentName cfg st)) \<and>
      \<not> isProcessing (snd (processWithGemini env text model agentName cfg st)) \<and>
      \<not> isProcessing (snd (processWithGroq env text model agentName cfg st))) \<and>
   processWithAnthropic env text model agentName cfg (st\<lparr>isProcessing := b\<rparr>) =
     (fst (processWithAnthropic env text model agentName cfg st),
      (snd (processWithAnthropic env text model agentName cfg st))\<lparr>isProcessing := b\<rparr>) \<and>
   processWithLocal env text model agentName cfg (st\<lparr>isProcessing := b\<rparr>) =
     (fst (processWithLocal env text model agentName cfg st),
      (snd (processWithLocal env text model agentName cfg st))\<lparr>isProcessing := b\<rparr>)"
proof (intro conjI impI)
  assume "isProcessing st"
  then show "processWithOpenAI env text model agentName cfg st =
               (Inl (Error ''Already processing a request''), st)"
    and "processWithGemini env text model agentName cfg st =
               (Inl (Error ''Already processing a request''), st)"
    and "processWithGroq env text model agentName cfg st =
               (Inl (Error ''Already processing a request''), st)"
    by (rule guard_rejects)+
next
  assume "\<not> isProcessing st"
  then show "\<not> isProcessing (snd (processWithOpenAI env text model agentName cfg st))"
    and "\<not> isProcessing (snd (processWithGemini env text model agentName cfg st))"
    and "\<not> isProcessing (snd (processWithGroq env text model agentName cfg st))"
    by (rule openai_clears_guard gemini_clears_guard groq_clears_guard)+
qed (rule anthropic_ignores_guard local_ignores_guard)+

theorem guard_of_direct_drivers_witness:
  "processWithOpenAI exampleEnv ''hello'' ''gpt-4o'' None noConfig busy =
     (Inl (Error ''Already processing a request''), busy) \<and>
   \<not> isProcessing (snd (processWithGroq exampleEnv ''hello'' ''llama-3'' None noConfig (idle [])))"
  using guard_of_direct_drivers [of busy exampleEnv "''hello''" "''gpt-4o''" None noConfig True]
    guard_of_direct_drivers [of "idle []" exampleEnv "''hello''" "''llama-3''" None noConfig True]
  by (simp add: busy_def idle_def)

text \<open>
  Against C1 as stated: with the guard set, the delegated drivers do not fail with the
  guard's error; they make the delegated call and return its text.
\<close>

theorem delegated_drivers_skip_guard_counterexample:
  "isProcessing busy \<and>
   fst (processWithAnthropic exampleEnv ''hello'' ''claude-3'' None noConfig busy) = Inr ''done'' \<and>
   fst (processWithLocal exampleEnv ''hello'' ''qwen-7b'' None noConfig busy) = Inr ''done''"
  by (simp add: busy_def idle_def processWithAnthropic_def processWithLocal_def exampleEnv_def)

subsection \<open>Validation of the model name\<close>

text \<open>
  Claim C8. When the model is empty after trimming, \<open>processText\<close> fails with
  \<open>No reasoning model selected\<close>; when the registry names a provider outside
  openai, anthropic, local, gemini and groq, it fails with \<open>Unsupported reasoning provider\<close>
  followed by that name. In both cases the state comes back unchanged: the trace holds no
  key lookup and no request, and the network's responses are untouched.
\<close>

theorem processText_validates_model:
  "(trim model = [] \<longrightarrow>
      processText env text model agentName cfg st =
        (Inl (Error ''No reasoning model selected''), st)) \<and>
   (trim model \<noteq> [] \<and>
    getModelProvider env (trim model) \<notin> set [''openai'', ''anthropic'', ''local'', ''gemini'', ''groq''] \<longrightarrow>
      processText env text model agentName cfg st =
        (Inl (Error (''Unsupported reasoning provider: '' @ getModelProvider env (trim model))), st))"
  by (simp add: processText_def Let_def)

theorem processText_validates_model_witness:
  "processText exampleEnv ''hello'' ''   '' None noConfig (idle []) =
     (Inl (Error ''No reasoning model selected''), idle []) \<and>
   processText exampleEnv ''hello'' '' whisper '' None noConfig (idle []) =
     (Inl (Error ''Unsupported reasoning provider: mystery''), idle [])"
  using processText_validates_model [of "''   ''" exampleEnv "''hello''" None noConfig "idle []"]
    processText_validates_model [of "'' whisper ''" exampleEnv "''hello''" None noConfig "idle []"]
  by (simp add: trim_def isWhiteSpace_def exampleEnv_def startsWith_def)

subsection \<open>Which model string each driver receives\<close>

lemma fetch_trace: "trace (snd (fetch ep h b st)) = trace st @ [Fetched ep h b]"
  by (simp add: fetch_def Let_def split: list.split)

lemma postJson_trace: "trace (snd (postJson p ep h b st)) = trace st @ [Fetched ep h b]"
  using fetch_trace [of ep h b st]
  by (auto simp add: postJson_def split: prod.splits http_result.splits sum.splits option.splits)

lemma withRetry_postJson_trace:
  "\<exists>k. trace (snd (withRetry n r (postJson p ep h b) st)) = trace st @ replicate (Suc k) (Fetched ep h b)"
proof (induction n arbitrary: st)
  case 0
  have "trace (snd (postJson p ep h b st)) = trace st @ replicate (Suc 0) (Fetched ep h b)"
    by (simp add: postJson_trace)
  then show ?case unfolding withRetry.simps by blast
next
  case (Suc n)
  obtain res st' where op: "postJson p ep h b st = (res, st')" by (cases "postJson p ep h b st")
  then have tr: "trace st' = trace st @ [Fetched ep h b]"
    using postJson_trace [of p ep h b st] by simp
  show ?case
  proof (cases "\<exists>e. res = Inl e \<and> r e")
    case True
    then obtain e where e: "res = Inl e" "r e" by blast
    from Suc.IH [of st'] obtain k where
      "trace (snd (withRetry n r (postJson p ep h b) st')) = trace st' @ replicate (Suc k) (Fetched ep h b)"
      by blast
    then have "trace (snd (withRetry (Suc n) r (postJson p ep h b) st)) =
                 trace st @ replicate (Suc (Suc k)) (Fetched ep h b)"
      using op e tr by simp
    then show ?thesis by blast
  next
    case False
    then have "withRetry (Suc n) r (postJson p ep h b) st = (res, st')"
      using op by (cases res) auto
    then have "trace (snd (withRetry (Suc n) r (postJson p ep h b) st)) =
                 trace st @ replicate (Suc 0) (Fetched ep h b)"
      using tr by simp
    then show ?thesis by blast
  qed
qed

lemma getApiKey_trace: "trace (snd (getApiKey env provider st)) = trace st @ [KeyLookup provider]"
  by (simp add: getApiKey_def Let_def split: option.split key_result.split)

lemma groq_trace:
  assumes "\<not> isProcessing st" and "fst (getApiKey env Groq st) = Inr apiKey"
  shows "\<exists>k. trace (snd (processWithGroq env text model agentName cfg st)) =
           trace st @ KeyLookup Groq #
             replicate (Suc k) (Fetched (buildApiUrl env (GROQ_BASE env) ''/chat/completions'')
                (bearerHeaders apiKey) (chatRequestBody env model text agentName cfg))"
proof -
  obtain st1 where k: "getApiKey env Groq st = (Inr apiKey, st1)"
    using assms(2) by (cases "getApiKey env Groq st") auto
  then have t1: "trace st1 = trace st @ [KeyLookup Groq]"
    using getApiKey_trace [of env Groq st] by simp
  let ?ep = "buildApiUrl env (GROQ_BASE env) ''/chat/completions''"
  let ?op = "postJson ''Groq'' ?ep (bearerHeaders apiKey) (chatRequestBody env model text agentName cfg)"
  let ?st2 = "st1\<lparr>isProcessing := True\<rparr>"
  obtain k where w: "trace (snd (withRetry (maxRetries env) (shouldRetry env) ?op ?st2)) =
      trace ?st2 @ replicate (Suc k) (Fetched ?ep (bearerHeaders apiKey) (chatRequestBody env model text agentName cfg))"
    using withRetry_postJson_trace by blast
  have "trace (snd (processWithGroq env text model agentName cfg st)) =
          trace (snd (withRetry (maxRetries env) (shouldRetry env) ?op ?st2))"
    using assms(1) k
    by (simp add: processWithGroq_def callChatCompletionsApi_def split: prod.splits sum.splits)
  then show ?thesis using w t1 by auto
qed

lemma chatRequestBody_model:
  "propOf (chatRequestBody env model text agentName cfg) ''model'' = Some (JStr model)"
  by (simp add: chatRequestBody_def)

text \<open>
  Claim C10. For a model that is not empty after trimming, \<open>processText\<close> hands the
  Groq driver the model as the caller gave it, untrimmed, and every other driver the
  trimmed model. The Groq request carries that untrimmed string in its \<open>model\<close> field:
  when the guard is clear and a key is found, what the call adds to the trace is the key
  lookup followed by one or more copies of the request whose body is built from the
  untrimmed model.
\<close>

theorem dispatch_model_argument:
  assumes "trim model \<noteq> []"
  shows "(getModelProvider env (trim model) = ''groq'' \<longrightarrow>
            processText env text model agentName cfg st = processWithGroq env text model agentName cfg st \<and>
            propOf (chatRequestBody env model text agentName cfg) ''model'' = Some (JStr model) \<and>
            (\<not> isProcessing st \<and> fst (getApiKey env Groq st) = Inr apiKey \<longrightarrow>
               (\<exists>k. trace (snd (processText env text model agentName cfg st)) =
                  trace st @ KeyLookup Groq #
                    replicate (Suc k) (Fetched (buildApiUrl env (GROQ_BASE env) ''/chat/completions'')
                      (bearerHeaders apiKey) (chatRequestBody env model text agentName cfg))))) \<and>
         (getModelProvider env (trim model) = ''openai'' \<longrightarrow>
            processText env text model agentName cfg st =
              processWithOpenAI env text (trim model) agentName cfg st) \<and>
         (getModelProvider env (trim model) = ''anthropic'' \<longrightarrow>
            processText env text model agentName cfg st =
              processWithAnthropic env text (trim model) agentName cfg st) \<and>
         (getModelProvider env (trim model) = ''local'' \<longrightarrow>
            processText env text model agentName cfg st =
              processWithLocal env text (trim model) agentName cfg st) \<and>
         (getModelProvider env (trim model) = ''gemini'' \<longrightarrow>
            processText env text model agentName cfg st =
              processWithGemini env text (trim model) agentName cfg st)"
proof -
  have g: "getModelProvider env (trim model) = ''groq'' \<Longrightarrow>
        processText env text model agentName cfg st = processWithGroq env text model agentName cfg st"
    using assms by (simp add: processText_def Let_def)
  show ?thesis
    using assms g groq_trace [of st env apiKey "text" model agentName cfg]
    by (auto simp add: processText_def Let_def chatRequestBody_model)
qed

theorem dispatch_model_argument_witness:
  "trace (snd (processText exampleEnv ''hello'' '' llama-3 '' None noConfig (idle [reply 200 (JObj [])]))) =
     [KeyLookup Groq,
      Fetched ''https://api.groq.com/openai/v1/chat/completions'' (bearerHeaders ''sk-test'')
        (chatRequestBody exampleEnv '' llama-3 '' ''hello'' None noConfig)] \<and>
   propOf (chatRequestBody exampleEnv '' llama-3 '' ''hello'' None noConfig) ''model'' = Some (JStr '' llama-3 '') \<and>
   processText exampleEnv ''hello'' '' gpt-4o '' None noConfig (idle []) =
     processWithOpenAI exampleEnv ''hello'' ''gpt-4o'' None noConfig (idle [])"
proof -
  have t: "trim '' llama-3 '' = ''llama-3''" "trim '' gpt-4o '' = ''gpt-4o''"
    by (simp_all add: trim_def isWhiteSpace_def)
  have p: "getModelProvider exampleEnv ''llama-3'' = ''groq''" "getModelProvider exampleEnv ''gpt-4o'' = ''openai''"
    by (simp_all add: exampleEnv_def startsWith_def)
  have k: "fst (getApiKey exampleEnv Groq (idle [reply 200 (JObj [])])) = Inr ''sk-test''"
    by (simp add: getApiKey_def exampleEnv_def idle_def)
  have i: "\<not> isProcessing (idle [reply 200 (JObj [])])" by (simp add: idle_def)
  have eq: "processText exampleEnv ''hello'' '' llama-3 '' None noConfig (idle [reply 200 (JObj [])]) =
        processWithGroq exampleEnv ''hello'' '' llama-3 '' None noConfig (idle [reply 200 (JObj [])])"
    using dispatch_model_argument [of "'' llama-3 ''" exampleEnv "''hello''" None noConfig "idle [reply 200 (JObj [])]" "''sk-test''"] t p
    by simp
  have run: "trace (snd (processWithGroq exampleEnv ''hello'' '' llama-3 '' None noConfig (idle [reply 200 (JObj [])]))) =
     [KeyLookup Groq,
      Fetched ''https://api.groq.com/openai/v1/chat/completions'' (bearerHeaders ''sk-test'')
        (chatRequestBody exampleEnv '' llama-3 '' ''hello'' None noConfig)]"
    by (simp add: processWithGroq_def callChatCompletionsApi_def getApiKey_def idle_def exampleEnv_def
        numeral_2_eq_2 postJson_def fetch_def reply_def ok_def chatResponseText_def Let_def)
  show ?thesis
    using eq run dispatch_model_argument [of "'' gpt-4o ''" exampleEnv "''hello''" None noConfig "idle []" "''sk-test''"] t p
    by (simp add: chatRequestBody_model)
qed

subsection \<open>Token budget\<close>

lemma ceiling_mult_mono:
  fixes m :: rat
  assumes "0 \<le> m" and "(a::nat) \<le> b"
  shows "\<lceil>of_nat a * m\<rceil> \<le> \<lceil>of_nat b * m\<rceil>"
proof -
  have "(of_nat a :: rat) \<le> of_nat b" using assms(2) by simp
  then have "of_nat a * m \<le> of_nat b * m" using assms(1) by (rule mult_right_mono)
  then show ?thesis by (rule ceiling_mono)
qed

lemma calculateMaxTokens_mono:
  "0 \<le> m \<Longrightarrow> a \<le> b \<Longrightarrow> calculateMaxTokens a lo hi m \<le> calculateMaxTokens b lo hi m"
  using ceiling_mult_mono [of m a b] by (auto simp add: calculateMaxTokens_def)

lemma maxTokensOr_mono: "x \<le> y \<Longrightarrow> maxTokensOr cfg x \<le> maxTokensOr cfg y"
  by (simp add: maxTokensOr_def split: option.split)

text \<open>
  Claim C5, as the source has it. When \<open>config.maxTokens\<close> is absent or zero, the
  budget of a chat-completions request (Groq) is the clamp of the spec,
  \<open>max floor (min (ceil (length * multiplier)) ceiling)\<close>, with the generic ceiling
  and the floor \<open>max 4096 MIN_TOKENS\<close>; the budget of a Gemini request is the same
  clamp with the Gemini ceiling and the floor \<open>max 2000 MIN_TOKENS_GEMINI\<close>. Each is
  at least its floor, and at most its ceiling when the floor does not exceed the ceiling.
  A \<open>config.maxTokens\<close> that is present and not zero is used as it is. For a
  multiplier that is not negative the budget does not decrease when the text gets longer.
  These values are the \<open>max_tokens\<close> and \<open>maxOutputTokens\<close> fields of the requests;
  an OpenAI request carries no token budget.
\<close>

theorem token_budget:
  "(maxTokens cfg = None \<or> maxTokens cfg = Some 0 \<longrightarrow>
      chatMaxTokens env txt cfg =
        of_int (max (max 4096 (MIN_TOKENS env))
                  (min \<lceil>of_nat (length txt) * TOKEN_MULTIPLIER env\<rceil> (MAX_TOKENS env))) \<and>
      geminiMaxOutputTokens env txt cfg =
        of_int (max (max 2000 (MIN_TOKENS_GEMINI env))
                  (min \<lceil>of_nat (length txt) * TOKEN_MULTIPLIER env\<rceil> (MAX_TOKENS_GEMINI env))) \<and>
      of_int (max 4096 (MIN_TOKENS env)) \<le> chatMaxTokens env txt cfg \<and>
      of_int (max 2000 (MIN_TOKENS_GEMINI env)) \<le> geminiMaxOutputTokens env txt cfg) \<and>
   ((maxTokens cfg = None \<or> maxTokens cfg = Some 0) \<and> max 4096 (MIN_TOKENS env) \<le> MAX_TOKENS env \<longrightarrow>
      chatMaxTokens env txt cfg \<le> of_int (MAX_TOKENS env)) \<and>
   ((maxTokens cfg = None \<or> maxTokens cfg = Some 0) \<and>
    max 2000 (MIN_TOKENS_GEMINI env) \<le> MAX_TOKENS_GEMINI env \<longrightarrow>
      geminiMaxOutputTokens env txt cfg \<le> of_int (MAX_TOKENS_GEMINI env)) \<and>
   (maxTokens cfg = Some m \<and> m \<noteq> 0 \<longrightarrow>
      chatMaxTokens env txt cfg = m \<and> geminiMaxOutputTokens env txt cfg = m) \<and>
   (0 \<le> TOKEN_MULTIPLIER env \<and> length txt \<le> length txt' \<longrightarrow>
      chatMaxTokens env txt cfg \<le> chatMaxTokens env txt' cfg \<and>
      geminiMaxOutputTokens env txt cfg \<le> geminiMaxOutputTokens env txt' cfg) \<and>
   propOf (chatRequestBody env model txt agentName cfg) ''max_tokens'' =
     Some (JNum (chatMaxTokens env txt cfg)) \<and>
   optProp (propOf (geminiRequestBody env txt agentName cfg) ''generationConfig'') ''maxOutputTokens'' =
     Some (JNum (geminiMaxOutputTokens env txt cfg)) \<and>
   propOf (openAiRequestBody model messages cfg type) ''max_tokens'' = None \<and>
   propOf (openAiRequestBody model messages cfg type) ''max_output_tokens'' = None"
proof -
  have absent: "maxTokens cfg = None \<or> maxTokens cfg = Some 0 \<Longrightarrow>
      chatMaxTokens env txt cfg =
        of_int (max (max 4096 (MIN_TOKENS env))
                  (min \<lceil>of_nat (length txt) * TOKEN_MULTIPLIER env\<rceil> (MAX_TOKENS env))) \<and>
      geminiMaxOutputTokens env txt cfg =
        of_int (max (max 2000 (MIN_TOKENS_GEMINI env))
                  (min \<lceil>of_nat (length txt) * TOKEN_MULTIPLIER env\<rceil> (MAX_TOKENS_GEMINI env)))"
    by (auto simp add: chatMaxTokens_def geminiMaxOutputTokens_def maxTokensOr_def
        calculateMaxTokens_def max.assoc)
  have present: "maxTokens cfg = Some m \<and> m \<noteq> 0 \<Longrightarrow>
      chatMaxTokens env txt cfg = m \<and> geminiMaxOutputTokens env txt cfg = m"
    by (simp add: chatMaxTokens_def geminiMaxOutputTokens_def maxTokensOr_def)
  have mono: "0 \<le> TOKEN_MULTIPLIER env \<and> length txt \<le> length txt' \<Longrightarrow>
      chatMaxTokens env txt cfg \<le> chatMaxTokens env txt' cfg \<and>
      geminiMaxOutputTokens env txt cfg \<le> geminiMaxOutputTokens env txt' cfg"
    unfolding chatMaxTokens_def geminiMaxOutputTokens_def
    by (intro conjI maxTokensOr_mono max.mono order_refl calculateMaxTokens_mono) simp_all
  have bodies: "propOf (chatRequestBody env model txt agentName cfg) ''max_tokens'' =
        Some (JNum (chatMaxTokens env txt cfg))"
    "optProp (propOf (geminiRequestBody env txt agentName cfg) ''generationConfig'') ''maxOutputTokens'' =
        Some (JNum (geminiMaxOutputTokens env txt cfg))"
    "propOf (openAiRequestBody model messages cfg type) ''max_tokens'' = None"
    "propOf (openAiRequestBody model messages cfg type) ''max_output_tokens'' = None"
    by (simp_all add: chatRequestBody_def geminiRequestBody_def openAiRequestBody_def)
  show ?thesis
    using absent present mono bodies by (auto simp del: of_int_max)
qed

theorem token_budget_witness:
  "chatMaxTokens exampleEnv ''hello'' noConfig = 4096 \<and>
   geminiMaxOutputTokens exampleEnv ''hello'' noConfig = 2000 \<and>
   chatMaxTokens (exampleEnv\<lparr>MAX_TOKENS := 8192\<rparr>) ''hello'' noConfig \<le> 8192 \<and>
   geminiMaxOutputTokens exampleEnv ''hello'' noConfig \<le> 8192 \<and>
   chatMaxTokens exampleEnv ''hello'' (noConfig\<lparr>maxTokens := Some 512\<rparr>) = 512 \<and>
   chatMaxTokens exampleEnv ''hi'' noConfig \<le> chatMaxTokens exampleEnv ''hello'' noConfig"
  using token_budget [of noConfig exampleEnv "''hello''" 512 "''hello''"]
    token_budget [of noConfig "exampleEnv\<lparr>MAX_TOKENS := 8192\<rparr>" "''hello''" 512 "''hello''"]
    token_budget [of "noConfig\<lparr>maxTokens := Some 512\<rparr>" exampleEnv "''hello''" 512 "''hello''"]
    token_budget [of noConfig exampleEnv "''hi''" 512 "''hello''"]
  by (simp add: noConfig_def exampleEnv_def)

text \<open>
  Against C5 as stated: an override of zero is present and does not take precedence (the
  request asks for 4096 tokens); and with the sample constants (floor 100, ceiling 2048)
  the budget of a short text is 4096, neither the spec's clamp of the generic constants
  nor within them.
\<close>

theorem token_budget_counterexample:
  "maxTokens (noConfig\<lparr>maxTokens := Some 0\<rparr>) = Some 0 \<and>
   propOf (chatRequestBody exampleEnv ''llama-3'' ''hello'' None (noConfig\<lparr>maxTokens := Some 0\<rparr>))
     ''max_tokens'' = Some (JNum 4096) \<and>
   chatMaxTokens exampleEnv ''hello'' noConfig = 4096 \<and>
   calculateMaxTokens (length ''hello'') (MIN_TOKENS exampleEnv) (MAX_TOKENS exampleEnv)
     (TOKEN_MULTIPLIER exampleEnv) = 100 \<and>
   MAX_TOKENS exampleEnv = 2048"
  by (simp add: chatRequestBody_def chatMaxTokens_def maxTokensOr_def calculateMaxTokens_def
      noConfig_def exampleEnv_def)

subsection \<open>Temperature\<close>

text \<open>
  The OpenAI driver puts a temperature into the request only for the chat shape and only
  for a model whose name begins with \<open>gpt-4\<close> or \<open>gpt-3\<close>.
\<close>

lemma openai_temperature_field:
  "propOf (openAiRequestBody model messages cfg Responses) ''temperature'' = None \<and>
   propOf (openAiRequestBody model messages cfg Chat) ''temperature'' =
     (if model \<noteq> [] \<and> (startsWith model ''gpt-4'' \<or> startsWith model ''gpt-3'')
      then Some (JNum (temperatureOr cfg)) else None)"
  by (simp add: openAiRequestBody_def isOlderModel_def)

text \<open>
  Claim C9 at a temperature of zero. The Gemini driver and the OpenAI driver compute
  \<^verbatim>\<open>config.temperature || 0.3\<close>, so a requested temperature of 0 is sent as 0.3; the
  chat-completions helper used for Groq computes \<^verbatim>\<open>config.temperature ?? 0.3\<close> and
  sends 0.
\<close>

theorem zero_temperature_replaced:
  "optProp (propOf (geminiRequestBody env txt agentName \<lparr>temperature = Some 0, maxTokens = mt\<rparr>)
      ''generationConfig'') ''temperature'' = Some (JNum (3 / 10)) \<and>
   propOf (openAiRequestBody ''gpt-4-turbo'' messages \<lparr>temperature = Some 0, maxTokens = mt\<rparr> Chat)
      ''temperature'' = Some (JNum (3 / 10)) \<and>
   propOf (chatRequestBody env model txt agentName \<lparr>temperature = Some 0, maxTokens = mt\<rparr>)
      ''temperature'' = Some (JNum 0)"
  by (simp add: geminiRequestBody_def openAiRequestBody_def chatRequestBody_def temperatureOr_def
      temperatureNullish_def isOlderModel_def startsWith_def)

subsection \<open>The policy on the OpenAI base URL\<close>

text \<open>
  What \<open>getConfiguredOpenAIBase\<close> returns is the default, or the normalized stored URL;
  the latter only if it names none of the three other providers and either starts with
  \<open>https://\<close> or has \<open>://localhost\<close> or \<open>://127.0.0.1\<close> somewhere in it.
\<close>

lemma getConfiguredOpenAIBase_cases:
  "getConfiguredOpenAIBase env st = OPENAI_BASE env \<or>
   (\<exists>ls stored. localStorage st = Some ls \<and> cloudReasoningBaseUrl ls = Some stored \<and>
      trim stored \<noteq> [] \<and>
      getConfiguredOpenAIBase env st = normalizeBaseUrl env (trim stored) \<and>
      \<not> list_ex (includesStr (normalizeBaseUrl env (trim stored))) knownNonOpenAIUrls \<and>
      (startsWith (normalizeBaseUrl env (trim stored)) ''https://'' \<or>
       includesStr (normalizeBaseUrl env (trim stored)) ''://localhost'' \<or>
       includesStr (normalizeBaseUrl env (trim stored)) ''://127.0.0.1''))"
proof (cases "localStorage st")
  case None
  then show ?thesis by (simp add: getConfiguredOpenAIBase_def)
next
  case (Some ls)
  show ?thesis
  proof (cases "cloudReasoningBaseUrl ls")
    case None
    with Some show ?thesis by (simp add: getConfiguredOpenAIBase_def trim_def)
  next
    case stored: (Some stored)
    let ?n = "normalizeBaseUrl env (trim stored)"
    show ?thesis
    proof (cases "trim stored = [] \<or> ?n = [] \<or> list_ex (includesStr ?n) knownNonOpenAIUrls \<or>
        (\<not> startsWith ?n ''https://'' \<and> \<not> includesStr ?n ''://localhost'' \<and>
         \<not> includesStr ?n ''://127.0.0.1'')")
      case True
      then have "getConfiguredOpenAIBase env st = OPENAI_BASE env"
        using Some stored by (auto simp add: getConfiguredOpenAIBase_def Let_def) 
      then show ?thesis by simp
    next
      case False
      then have "getConfiguredOpenAIBase env st = ?n"
        using Some stored by (auto simp add: getConfiguredOpenAIBase_def Let_def)
      with False Some stored show ?thesis by blast
    qed
  qed
qed

text \<open>
  Claim C7 at a URL that is neither secure nor a loopback address. The test for the
  loopback exception is a substring test, so the plain-HTTP URL of the remote host
  \<open>localhost.evil.example\<close> is returned as the base URL, while the plain-HTTP URL of
  \<open>evil.example\<close> is replaced by the default.
\<close>

theorem insecure_base_accepted:
  "getConfiguredOpenAIBase exampleEnv (withCustomBase ''http://localhost.evil.example/v1'') =
     ''http://localhost.evil.example/v1'' \<and>
   getConfiguredOpenAIBase exampleEnv (withCustomBase ''http://evil.example/v1'') =
     ''https://api.openai.com/v1''"
  by (simp add: getConfiguredOpenAIBase_def withCustomBase_def idle_def exampleEnv_def Let_def
      trim_def isWhiteSpace_def knownNonOpenAIUrls_def startsWith_def)

subsection \<open>Empty results\<close>

text \<open>
  Claim C3 at the response body \<open>null\<close>. The body is JSON and no text can be taken
  from it, yet the driver does not return the input text: the log call that reads
  \<^verbatim>\<open>response.usage\<close> throws a TypeError. For the body \<open>{}\<close> the input text comes back.
\<close>

theorem openai_null_body:
  "fst (processWithOpenAI exampleEnv ''hello'' ''gpt-4o'' None noConfig (idle [reply 200 JNull])) = Inl TypeError \<and>
   fst (processWithOpenAI exampleEnv ''hello'' ''gpt-4o'' None noConfig (idle [reply 200 (JObj [])])) = Inr ''hello''"
  by code_simp

lemma extractOpenAiText_not_empty:
  "extractOpenAiText response txt = Inr t \<Longrightarrow> txt \<noteq> [] \<Longrightarrow> t \<noteq> []"
  by (auto simp add: extractOpenAiText_def Let_def split: sum.splits if_splits)

lemma truthy_optProp: "truthy (optProp v k) \<Longrightarrow> truthy v"
proof (cases v)
  case None
  then show "truthy (optProp v k) \<Longrightarrow> truthy v" by simp
next
  case (Some j)
  then show "truthy (optProp v k) \<Longrightarrow> truthy v"
    by (cases j) (auto split: option.splits if_splits)
qed

lemma geminiResponseText_empty:
  assumes "truthy (optProp (propOf response ''candidates'') ''0'')"
    and "\<not> truthy (candidateText (optProp (propOf response ''candidates'') ''0''))"
  shows "geminiResponseText response =
           Inl (Error (if optProp (optProp (propOf response ''candidates'') ''0'') ''finishReason'' =
                         Some (JStr ''MAX_TOKENS'')
                       then tokenLimitMessage else ''Gemini returned empty response''))"
proof -
  have c: "truthy (propOf response ''candidates'')"
    using assms(1) by (rule truthy_optProp)
  then have "response \<noteq> JNull" by auto
  then have "getProp (Some response) ''candidates'' = Inr (propOf response ''candidates'')"
    by (cases response) simp_all
  then show ?thesis
    using c assms by (simp add: geminiResponseText_def Let_def)
qed

text \<open>
  Claim C6. Let the Gemini driver start with the guard clear, find a key, and get from
  its request (after whatever retries) a parsed response whose \<open>candidates[0]\<close> is
  there and whose \<open>candidates[0].content.parts[0].text\<close> is missing or falsy. Then the
  driver fails: with the token-limit error when \<open>candidates[0].finishReason\<close> is
  \<open>MAX_TOKENS\<close>, with \<open>Gemini returned empty response\<close> otherwise. The two messages
  differ, the input text is not returned, and the guard is clear afterwards.
\<close>

theorem gemini_empty_result:
  assumes "\<not> isProcessing st"
    and "fst (getApiKey env Gemini st) = Inr apiKey"
    and "fst (withRetry (maxRetries env) (shouldRetry env)
                (postJson ''Gemini'' (geminiEndpoint env model) (geminiHeaders apiKey)
                   (geminiRequestBody env txt agentName cfg))
                ((snd (getApiKey env Gemini st))\<lparr>isProcessing := True\<rparr>)) = Inr response"
    and "truthy (optProp (propOf response ''candidates'') ''0'')"
    and "\<not> truthy (candidateText (optProp (propOf response ''candidates'') ''0''))"
  shows "fst (processWithGemini env txt model agentName cfg st) =
           Inl (Error (if optProp (optProp (propOf response ''candidates'') ''0'') ''finishReason'' =
                         Some (JStr ''MAX_TOKENS'')
                       then tokenLimitMessage else ''Gemini returned empty response'')) \<and>
         fst (processWithGemini env txt model agentName cfg st) \<noteq> Inr txt \<and>
         tokenLimitMessage \<noteq> ''Gemini returned empty response'' \<and>
         \<not> isProcessing (snd (processWithGemini env txt model agentName cfg st))"
proof -
  obtain st1 where k: "getApiKey env Gemini st = (Inr apiKey, st1)"
    using assms(2) by (cases "getApiKey env Gemini st") auto
  obtain st2 where w: "withRetry (maxRetries env) (shouldRetry env)
                (postJson ''Gemini'' (geminiEndpoint env model) (geminiHeaders apiKey)
                   (geminiRequestBody env txt agentName cfg))
                (st1\<lparr>isProcessing := True\<rparr>) = (Inr response, st2)"
    using assms(3) k
    by (cases "withRetry (maxRetries env) (shouldRetry env)
                (postJson ''Gemini'' (geminiEndpoint env model) (geminiHeaders apiKey)
                   (geminiRequestBody env txt agentName cfg))
                (st1\<lparr>isProcessing := True\<rparr>)") auto
  have r: "processWithGemini env txt model agentName cfg st =
             (geminiResponseText response, st2\<lparr>isProcessing := False\<rparr>)"
    using assms(1) k w by (simp add: processWithGemini_def)
  have m: "tokenLimitMessage \<noteq> ''Gemini returned empty response''"
    by (simp add: tokenLimitMessage_def)
  show ?thesis
    using r m geminiResponseText_empty [OF assms(4) assms(5)] by simp
qed

theorem gemini_empty_result_witness:
  "fst (processWithGemini exampleEnv ''hello'' ''gemini-2.5-pro'' None noConfig
          (idle [reply 200 maxTokensReply])) = Inl (Error tokenLimitMessage) \<and>
   fst (processWithGemini exampleEnv ''hello'' ''gemini-2.5-pro'' None noConfig
          (idle [reply 200 emptyPartsReply])) = Inl (Error ''Gemini returned empty response'')"
proof -
  have i: "\<not> isProcessing (idle rs)" for rs by (simp add: idle_def)
  have k: "fst (getApiKey exampleEnv Gemini (idle rs)) = Inr ''sk-test''" for rs
    by (simp add: getApiKey_def exampleEnv_def idle_def)
  have w: "fst (withRetry (maxRetries exampleEnv) (shouldRetry exampleEnv)
                (postJson ''Gemini'' (geminiEndpoint exampleEnv ''gemini-2.5-pro'') (geminiHeaders ''sk-test'')
                   (geminiRequestBody exampleEnv ''hello'' None noConfig))
                ((snd (getApiKey exampleEnv Gemini (idle [reply 200 j])))\<lparr>isProcessing := True\<rparr>)) = Inr j" for j
    by (simp add: getApiKey_def exampleEnv_def idle_def numeral_2_eq_2 postJson_def fetch_def
        reply_def ok_def)
  have a: "truthy (optProp (propOf maxTokensReply ''candidates'') ''0'')"
    "\<not> truthy (candidateText (optProp (propOf maxTokensReply ''candidates'') ''0''))"
    "optProp (optProp (propOf maxTokensReply ''candidates'') ''0'') ''finishReason'' = Some (JStr ''MAX_TOKENS'')"
    by (simp_all add: maxTokensReply_def candidateText_def arrayIndex_def isDigit_def digitValue_def)
  have b: "truthy (optProp (propOf emptyPartsReply ''candidates'') ''0'')"
    "\<not> truthy (candidateText (optProp (propOf emptyPartsReply ''candidates'') ''0''))"
    "optProp (optProp (propOf emptyPartsReply ''candidates'') ''0'') ''finishReason'' \<noteq> Some (JStr ''MAX_TOKENS'')"
    by (simp_all add: emptyPartsReply_def candidateText_def arrayIndex_def isDigit_def digitValue_def)
  show ?thesis
    using gemini_empty_result [OF i k w a(1) a(2)] gemini_empty_result [OF i k w b(1) b(2)] a(3) b(3)
    by simp
qed

subsection \<open>Negotiation of the OpenAI endpoint\<close>

lemma fetch_responds:
  "network st = r # rs \<Longrightarrow>
   fetch ep h b st = (r, st\<lparr>trace := trace st @ [Fetched ep h b], network := rs\<rparr>)"
  by (simp add: fetch_def Let_def)

lemma openAiErrorMessage_not_null:
  "bodyJson res \<noteq> Some JNull \<Longrightarrow> \<exists>m. openAiErrorMessage res = Inr m"
proof (cases "bodyJson res")
  case None
  then show ?thesis by (simp add: openAiErrorMessage_def Let_def split: option.split)
next
  case (Some j)
  assume "bodyJson res \<noteq> Some JNull"
  with Some have "j \<noteq> JNull" by simp
  then have "getProp (Some j) ''error'' = Inr (propOf j ''error'')" by (cases j) simp_all
  with Some show ?thesis by (simp add: openAiErrorMessage_def Let_def split: option.split)
qed

text \<open>
  Claim C2, as the source has it. Let the response to the candidate being tried be a
  failure (not 2xx). On the responses shape with status 404 or 405, and a body other than
  the JSON value null, the loop records the chat preference for the base URL and goes on
  to the remaining candidates with the error kept as \<open>lastError\<close>. On the responses
  shape with any other status the loop also goes on to the remaining candidates, without
  recording a preference: the \<^verbatim>\<open>catch\<close> of the loop continues for the responses shape.
  On the chat shape the failure ends the run of the loop: the error is thrown after this
  one request, and the remaining candidates are not tried.
\<close>

theorem endpoint_negotiation:
  assumes "network st = Responds res # rs" and "\<not> ok res"
  shows "(bodyJson res \<noteq> Some JNull \<and> (status res = 404 \<or> status res = 405) \<longrightarrow>
            tryEndpoints apiKey model messages cfg base ((endpoint, Responses) # rest) lastError st =
              tryEndpoints apiKey model messages cfg base rest (Some (openAiFailure res))
                (rememberOpenAiPreference base Chat
                   (st\<lparr>trace := trace st @ [Fetched endpoint (bearerHeaders apiKey)
                                               (openAiRequestBody model messages cfg Responses)],
                       network := rs\<rparr>)) \<and>
            openAiEndpointPreference
              (rememberOpenAiPreference base Chat
                 (st\<lparr>trace := trace st @ [Fetched endpoint (bearerHeaders apiKey)
                                             (openAiRequestBody model messages cfg Responses)],
                     network := rs\<rparr>)) base = Some Chat) \<and>
         (status res \<noteq> 404 \<and> status res \<noteq> 405 \<longrightarrow>
            tryEndpoints apiKey model messages cfg base ((endpoint, Responses) # rest) lastError st =
              tryEndpoints apiKey model messages cfg base rest (Some (openAiFailure res))
                (st\<lparr>trace := trace st @ [Fetched endpoint (bearerHeaders apiKey)
                                            (openAiRequestBody model messages cfg Responses)],
                    network := rs\<rparr>)) \<and>
         tryEndpoints apiKey model messages cfg base ((endpoint, Chat) # rest) lastError st =
           (Inl (openAiFailure res),
            st\<lparr>trace := trace st @ [Fetched endpoint (bearerHeaders apiKey)
                                        (openAiRequestBody model messages cfg Chat)],
                network := rs\<rparr>)"
proof (intro conjI impI)
  assume a: "bodyJson res \<noteq> Some JNull \<and> (status res = 404 \<or> status res = 405)"
  then obtain m where m: "openAiErrorMessage res = Inr m"
    using openAiErrorMessage_not_null by blast
  show "tryEndpoints apiKey model messages cfg base ((endpoint, Responses) # rest) lastError st =
              tryEndpoints apiKey model messages cfg base rest (Some (openAiFailure res))
                (rememberOpenAiPreference base Chat
                   (st\<lparr>trace := trace st @ [Fetched endpoint (bearerHeaders apiKey)
                                               (openAiRequestBody model messages cfg Responses)],
                       network := rs\<rparr>))"
    using assms a m by (simp add: fetch_responds openAiFailure_def)
  show "openAiEndpointPreference
              (rememberOpenAiPreference base Chat
                 (st\<lparr>trace := trace st @ [Fetched endpoint (bearerHeaders apiKey)
                                             (openAiRequestBody model messages cfg Responses)],
                     network := rs\<rparr>)) base = Some Chat"
    by (simp add: rememberOpenAiPreference_def Let_def split: option.split stored_item.split)
next
  assume "status res \<noteq> 404 \<and> status res \<noteq> 405"
  then show "tryEndpoints apiKey model messages cfg base ((endpoint, Responses) # rest) lastError st =
              tryEndpoints apiKey model messages cfg base rest (Some (openAiFailure res))
                (st\<lparr>trace := trace st @ [Fetched endpoint (bearerHeaders apiKey)
                                            (openAiRequestBody model messages cfg Responses)],
                    network := rs\<rparr>)"
    using assms by (simp add: fetch_responds openAiFailure_def split: sum.split)
next
  show "tryEndpoints apiKey model messages cfg base ((endpoint, Chat) # rest) lastError st =
           (Inl (openAiFailure res),
            st\<lparr>trace := trace st @ [Fetched endpoint (bearerHeaders apiKey)
                                        (openAiRequestBody model messages cfg Chat)],
                network := rs\<rparr>)"
    using assms by (simp add: fetch_responds openAiFailure_def split: sum.split)
qed

theorem endpoint_negotiation_witness:
  "tryEndpoints ''sk-test'' ''gpt-4o'' (buildMessages ''hello'') noConfig defaultBase
     [(''https://api.openai.com/v1/responses'', Responses),
      (''https://api.openai.com/v1/chat/completions'', Chat)] None
     (idle [reply 404 (JObj []), reply 200 (JObj [])]) =
   tryEndpoints ''sk-test'' ''gpt-4o'' (buildMessages ''hello'') noConfig defaultBase
     [(''https://api.openai.com/v1/chat/completions'', Chat)]
     (Some (openAiFailure \<lparr>status = 404, statusText = [], bodyText = [], bodyJson = Some (JObj [])\<rparr>))
     (rememberOpenAiPreference defaultBase Chat
        ((idle [reply 404 (JObj []), reply 200 (JObj [])])
           \<lparr>trace := trace (idle [reply 404 (JObj []), reply 200 (JObj [])]) @
              [Fetched ''https://api.openai.com/v1/responses'' (bearerHeaders ''sk-test'')
                 (openAiRequestBody ''gpt-4o'' (buildMessages ''hello'') noConfig Responses)],
            network := [reply 200 (JObj [])]\<rparr>)) \<and>
   fst (tryEndpoints ''sk-test'' ''gpt-4o'' (buildMessages ''hello'') noConfig defaultBase
          [(''https://api.openai.com/v1/chat/completions'', Chat),
           (''https://api.openai.com/v1/responses'', Responses)] None
          (idle [reply 500 (JObj []), reply 200 (JObj [])])) =
     Inl (openAiFailure \<lparr>status = 500, statusText = [], bodyText = [], bodyJson = Some (JObj [])\<rparr>)"
proof -
  let ?r404 = "\<lparr>status = 404, statusText = [], bodyText = [], bodyJson = Some (JObj [])\<rparr>"
  let ?r500 = "\<lparr>status = 500, statusText = [], bodyText = [], bodyJson = Some (JObj [])\<rparr>"
  have n1: "network (idle [reply 404 (JObj []), reply 200 (JObj [])]) = Responds ?r404 # [reply 200 (JObj [])]"
    and n2: "network (idle [reply 500 (JObj []), reply 200 (JObj [])]) = Responds ?r500 # [reply 200 (JObj [])]"
    by (simp_all add: idle_def reply_def)
  have k: "\<not> ok ?r404" "\<not> ok ?r500" by (simp_all add: ok_def)
  show ?thesis
    using endpoint_negotiation [OF n1 k(1), of "''sk-test''" "''gpt-4o''" "buildMessages ''hello''" noConfig
        defaultBase "''https://api.openai.com/v1/responses''"
        "[(''https://api.openai.com/v1/chat/completions'', Chat)]" None]
      endpoint_negotiation [OF n2 k(2), of "''sk-test''" "''gpt-4o''" "buildMessages ''hello''" noConfig
        defaultBase "''https://api.openai.com/v1/chat/completions''"
        "[(''https://api.openai.com/v1/responses'', Responses)]" None]
    by simp
qed

text \<open>
  Against C2 as stated: a 500 on the responses shape is not terminal. The loop goes on to
  the chat candidate, whose answer is the result; two requests are sent. No preference is
  recorded for the 500.
\<close>

theorem responses_failure_falls_through_counterexample:
  "fst (tryEndpoints ''sk-test'' ''gpt-4o'' (buildMessages ''hello'') noConfig ''https://api.openai.com/v1''
          [(''https://api.openai.com/v1/responses'', Responses),
           (''https://api.openai.com/v1/chat/completions'', Chat)] None
          (idle [reply 500 (JObj []), reply 200 (JObj [])])) = Inr (JObj []) \<and>
   trace (snd (tryEndpoints ''sk-test'' ''gpt-4o'' (buildMessages ''hello'') noConfig ''https://api.openai.com/v1''
          [(''https://api.openai.com/v1/responses'', Responses),
           (''https://api.openai.com/v1/chat/completions'', Chat)] None
          (idle [reply 500 (JObj []), reply 200 (JObj [])]))) =
     [Fetched ''https://api.openai.com/v1/responses'' (bearerHeaders ''sk-test'')
        (openAiRequestBody ''gpt-4o'' (buildMessages ''hello'') noConfig Responses),
      Fetched ''https://api.openai.com/v1/chat/completions'' (bearerHeaders ''sk-test'')
        (openAiRequestBody ''gpt-4o'' (buildMessages ''hello'') noConfig Chat)] \<and>
   openAiEndpointPreference (snd (tryEndpoints ''sk-test'' ''gpt-4o'' (buildMessages ''hello'') noConfig ''https://api.openai.com/v1''
          [(''https://api.openai.com/v1/responses'', Responses)] None
          (idle [reply 500 (JObj [])]))) ''https://api.openai.com/v1'' = None"
  by (simp add: idle_def reply_def fetch_def ok_def openAiErrorMessage_def Let_def
      rememberOpenAiPreference_def)

subsection \<open>Endpoint candidates and the chat preference\<close>

lemma requestUrls_append: "requestUrls (xs @ ys) = requestUrls xs @ requestUrls ys"
  by (induction xs rule: requestUrls.induct) simp_all

lemma getStored_memory:
  "openAiEndpointPreference st base = Some p \<Longrightarrow> getStoredOpenAiPreference base st = (Some p, st)"
  by (simp add: getStoredOpenAiPreference_def)

lemma getStored_durable:
  assumes "openAiEndpointPreference st base = None" and "localStorage st = Some ls"
    and "endpointPreferenceItem ls = Item (JObj kvs)" and "map_of kvs base = Some (JStr ''chat'')"
  shows "fst (getStoredOpenAiPreference base st) = Some Chat"
  using assms by (simp add: getStoredOpenAiPreference_def Let_def)

lemma getStored_cong:
  "openAiEndpointPreference st' = openAiEndpointPreference st \<Longrightarrow> localStorage st' = localStorage st \<Longrightarrow>
   fst (getStoredOpenAiPreference base st') = fst (getStoredOpenAiPreference base st)"
  by (simp add: getStoredOpenAiPreference_def Let_def split: option.split stored_item.split)

lemma getStored_snd:
  "fst (getStoredOpenAiPreference base st) = Some p \<Longrightarrow>
   snd (getStoredOpenAiPreference base st) = st\<lparr>openAiEndpointPreference := (openAiEndpointPreference st)(base \<mapsto> p)\<rparr>"
proof (cases "openAiEndpointPreference st base")
  case None
  assume "fst (getStoredOpenAiPreference base st) = Some p"
  with None show ?thesis
    by (auto simp add: getStoredOpenAiPreference_def Let_def split: option.splits stored_item.splits if_splits)
next
  case (Some q)
  assume "fst (getStoredOpenAiPreference base st) = Some p"
  with Some have "q = p" by (simp add: getStoredOpenAiPreference_def)
  with Some have "(openAiEndpointPreference st)(base \<mapsto> p) = openAiEndpointPreference st" by auto
  with Some show ?thesis by (simp add: getStoredOpenAiPreference_def)
qed

lemma remember_memory:
  "openAiEndpointPreference (rememberOpenAiPreference base p st) base = Some p"
  by (simp add: rememberOpenAiPreference_def Let_def split: option.split stored_item.split)

lemma remember_frame:
  "trace (rememberOpenAiPreference base p st) = trace st \<and>
   isProcessing (rememberOpenAiPreference base p st) = isProcessing st \<and>
   network (rememberOpenAiPreference base p st) = network st"
  by (simp add: rememberOpenAiPreference_def Let_def split: option.split stored_item.split)

lemma getConfiguredOpenAIBase_storage:
  assumes "map_option cloudReasoningBaseUrl (localStorage st') =
           map_option cloudReasoningBaseUrl (localStorage st)"
  shows "getConfiguredOpenAIBase env st' = getConfiguredOpenAIBase env st"
proof (cases "localStorage st")
  case None
  with assms have "localStorage st' = None" by simp
  with None show ?thesis by (simp add: getConfiguredOpenAIBase_def)
next
  case (Some ls)
  with assms obtain ls' where l: "localStorage st' = Some ls'"
    and c: "cloudReasoningBaseUrl ls' = cloudReasoningBaseUrl ls"
    by (cases "localStorage st'") auto
  show ?thesis
    unfolding getConfiguredOpenAIBase_def by (simp only: l Some c option.case)
qed

lemma remember_storage:
  "map_option cloudReasoningBaseUrl (localStorage (rememberOpenAiPreference base p st)) =
   map_option cloudReasoningBaseUrl (localStorage st)"
  by (simp add: rememberOpenAiPreference_def Let_def split: option.split stored_item.split)

lemma getConfiguredOpenAIBase_remember:
  "getConfiguredOpenAIBase env (rememberOpenAiPreference base p st) = getConfiguredOpenAIBase env st"
  using remember_storage by (rule getConfiguredOpenAIBase_storage)

lemma getConfiguredOpenAIBase_cong:
  "localStorage st' = localStorage st \<Longrightarrow> getConfiguredOpenAIBase env st' = getConfiguredOpenAIBase env st"
  by (simp add: getConfiguredOpenAIBase_def)

lemma candidates_cases:
  "(endsWith (toLowerCase base) ''/responses'' \<longrightarrow>
      getOpenAIEndpointCandidates env base st = ([(base, Responses)], st)) \<and>
   (\<not> endsWith (toLowerCase base) ''/responses'' \<and> endsWith (toLowerCase base) ''/chat/completions'' \<longrightarrow>
      getOpenAIEndpointCandidates env base st = ([(base, Chat)], st)) \<and>
   (\<not> hasShapeSuffix base \<longrightarrow>
      getOpenAIEndpointCandidates env base st =
        (if fst (getStoredOpenAiPreference base st) = Some Chat
         then [(buildApiUrl env base ''/chat/completions'', Chat)]
         else [(buildApiUrl env base ''/responses'', Responses),
               (buildApiUrl env base ''/chat/completions'', Chat)],
         snd (getStoredOpenAiPreference base st)))"
  by (simp add: getOpenAIEndpointCandidates_def hasShapeSuffix_def Let_def split: prod.split)

lemma candidates_no_suffix:
  "\<not> hasShapeSuffix base \<Longrightarrow>
   getOpenAIEndpointCandidates env base st =
     (if fst (getStoredOpenAiPreference base st) = Some Chat
      then [(buildApiUrl env base ''/chat/completions'', Chat)]
      else [(buildApiUrl env base ''/responses'', Responses),
            (buildApiUrl env base ''/chat/completions'', Chat)],
      snd (getStoredOpenAiPreference base st))"
  using candidates_cases [of base env st] by blast

lemma chatOnly_frame:
  assumes "chatOnly env base urls st"
    and "openAiEndpointPreference st' = openAiEndpointPreference st"
    and "localStorage st' = localStorage st"
    and "requestUrls (trace st') = requestUrls (trace st)"
  shows "chatOnly env base urls st'"
proof -
  have p: "fst (getStoredOpenAiPreference base st') = fst (getStoredOpenAiPreference base st)"
    using assms(2) assms(3) by (rule getStored_cong)
  have c: "getConfiguredOpenAIBase env st' = getConfiguredOpenAIBase env st"
    using assms(3) by (rule getConfiguredOpenAIBase_cong)
  show ?thesis
    using assms(1) unfolding chatOnly_def p c assms(4) .
qed

lemma replicate_snoc: "replicate k u @ [u] = replicate (Suc k) u"
  by (simp add: replicate_append_same)

lemma chatOnly_D:
  assumes "chatOnly env base urls st"
  shows "fst (getStoredOpenAiPreference base st) = Some Chat"
    and "getConfiguredOpenAIBase env st = base"
    and "\<exists>k. requestUrls (trace st) = urls @ replicate k (buildApiUrl env base ''/chat/completions'')"
  using assms unfolding chatOnly_def by blast+

lemma chatOnly_I:
  assumes "fst (getStoredOpenAiPreference base st) = Some Chat"
    and "getConfiguredOpenAIBase env st = base"
    and "requestUrls (trace st) = urls @ replicate k (buildApiUrl env base ''/chat/completions'')"
  shows "chatOnly env base urls st"
  unfolding chatOnly_def using assms by blast

lemma fetch_frame:
  "openAiEndpointPreference (snd (fetch ep h b st)) = openAiEndpointPreference st"
  "localStorage (snd (fetch ep h b st)) = localStorage st"
  "isProcessing (snd (fetch ep h b st)) = isProcessing st"
  "trace (snd (fetch ep h b st)) = trace st @ [Fetched ep h b]"
  by (simp_all add: fetch_def Let_def split: list.split)

lemma chatOnly_fetch:
  assumes "chatOnly env base urls st"
  shows "chatOnly env base urls (snd (fetch (buildApiUrl env base ''/chat/completions'') h b st))"
proof -
  let ?u = "buildApiUrl env base ''/chat/completions''"
  let ?st' = "snd (fetch ?u h b st)"
  obtain k where k: "requestUrls (trace st) = urls @ replicate k ?u"
    using chatOnly_D(3) [OF assms] by blast
  have "requestUrls (trace ?st') = requestUrls (trace st) @ [?u]"
    by (simp add: fetch_frame(4) requestUrls_append)
  also have "\<dots> = urls @ replicate (Suc k) ?u"
    unfolding k by (simp add: replicate_append_same)
  finally have t: "requestUrls (trace ?st') = urls @ replicate (Suc k) ?u" .
  have p: "fst (getStoredOpenAiPreference base ?st') = Some Chat"
    using getStored_cong [OF fetch_frame(1) fetch_frame(2), of base ?u h b st] chatOnly_D(1) [OF assms]
    by (rule trans)
  have c: "getConfiguredOpenAIBase env ?st' = base"
    using getConfiguredOpenAIBase_cong [OF fetch_frame(2), of env ?u h b st] chatOnly_D(2) [OF assms]
    by (rule trans)
  show ?thesis using p c t by (rule chatOnly_I)
qed

lemma chatOnly_remember:
  assumes "chatOnly env base urls st"
  shows "chatOnly env base urls (rememberOpenAiPreference base Chat st)"
proof -
  let ?st' = "rememberOpenAiPreference base Chat st"
  obtain k where k: "requestUrls (trace st) = urls @ replicate k (buildApiUrl env base ''/chat/completions'')"
    using chatOnly_D(3) [OF assms] by blast
  have "trace ?st' = trace st" using remember_frame [of base Chat st] by blast
  then have t: "requestUrls (trace ?st') = urls @ replicate k (buildApiUrl env base ''/chat/completions'')"
    using k by (simp only:)
  have "getStoredOpenAiPreference base ?st' = (Some Chat, ?st')"
    using remember_memory by (rule getStored_memory)
  then have p: "fst (getStoredOpenAiPreference base ?st') = Some Chat" by (simp only: fst_conv)
  have c: "getConfiguredOpenAIBase env ?st' = base"
    using getConfiguredOpenAIBase_remember chatOnly_D(2) [OF assms] by (rule trans)
  show ?thesis using p c t by (rule chatOnly_I)
qed

lemma tryEndpoints_chat_state:
  "snd (tryEndpoints apiKey model messages cfg base [(u, Chat)] lastError st) =
     snd (fetch u (bearerHeaders apiKey) (openAiRequestBody model messages cfg Chat) st) \<or>
   snd (tryEndpoints apiKey model messages cfg base [(u, Chat)] lastError st) =
     rememberOpenAiPreference base Chat
       (snd (fetch u (bearerHeaders apiKey) (openAiRequestBody model messages cfg Chat) st))"
proof -
  obtain r st1 where f: "fetch u (bearerHeaders apiKey) (openAiRequestBody model messages cfg Chat) st = (r, st1)"
    by (cases "fetch u (bearerHeaders apiKey) (openAiRequestBody model messages cfg Chat) st")
  show ?thesis
  proof (cases r)
    case Rejects
    with f show ?thesis by simp
  next
    case (Responds res)
    show ?thesis
    proof (cases "ok res")
      case True
      with f Responds show ?thesis by (cases "bodyJson res") (simp_all add: Let_def)
    next
      case False
      with f Responds show ?thesis by (cases "openAiErrorMessage res") simp_all
    qed
  qed
qed

lemma chatOnly_tryEndpoints:
  assumes "chatOnly env base urls st"
  shows "chatOnly env base urls
           (snd (tryEndpoints apiKey model messages cfg base
                   [(buildApiUrl env base ''/chat/completions'', Chat)] lastError st))"
proof -
  let ?u = "buildApiUrl env base ''/chat/completions''"
  let ?st1 = "snd (fetch ?u (bearerHeaders apiKey) (openAiRequestBody model messages cfg Chat) st)"
  have c1: "chatOnly env base urls ?st1"
    using assms by (rule chatOnly_fetch)
  have c2: "chatOnly env base urls (rememberOpenAiPreference base Chat ?st1)"
    using c1 by (rule chatOnly_remember)
  from tryEndpoints_chat_state [of apiKey model messages cfg base ?u lastError st]
  show ?thesis
  proof
    assume "snd (tryEndpoints apiKey model messages cfg base [(?u, Chat)] lastError st) = ?st1"
    then show ?thesis using c1 by (simp only:)
  next
    assume "snd (tryEndpoints apiKey model messages cfg base [(?u, Chat)] lastError st) =
      rememberOpenAiPreference base Chat ?st1"
    then show ?thesis using c2 by (simp only:)
  qed
qed

lemma withRetry_invariant:
  assumes "\<And>s. P s \<Longrightarrow> P (snd (operation s))" and "P st"
  shows "P (snd (withRetry n retryable operation st))"
  using assms(2)
proof (induction n arbitrary: st)
  case 0
  then show ?case using assms(1) by simp
next
  case (Suc n)
  obtain res st' where op: "operation st = (res, st')" by (cases "operation st")
  then have "P st'" using assms(1) [OF Suc.prems] by simp
  then show ?case
    using op Suc.IH [of st'] by (cases res) auto
qed

lemma chatOnly_processWithOpenAI:
  assumes "\<not> hasShapeSuffix base" and "chatOnly env base urls st"
  shows "chatOnly env base urls (snd (processWithOpenAI env txt model agentName cfg st))"
proof (cases "isProcessing st")
  case True
  then have "snd (processWithOpenAI env txt model agentName cfg st) = st"
    by (simp add: processWithOpenAI_def)
  then show ?thesis using assms(2) by (simp only:)
next
  case False
  obtain kr st1 where k: "getApiKey env Openai st = (kr, st1)" by (cases "getApiKey env Openai st")
  have f1: "openAiEndpointPreference st1 = openAiEndpointPreference st" "localStorage st1 = localStorage st"
    "requestUrls (trace st1) = requestUrls (trace st)"
    using k by (auto simp add: getApiKey_def Let_def requestUrls_append split: option.splits key_result.splits)
  have c1: "chatOnly env base urls st1"
    using assms(2) f1 by (rule chatOnly_frame)
  show ?thesis
  proof (cases kr)
    case (Inl e)
    then have "snd (processWithOpenAI env txt model agentName cfg st) = st1"
      using False k by (simp add: processWithOpenAI_def)
    then show ?thesis using c1 by (simp only:)
  next
    case (Inr apiKey)
    let ?st2 = "st1\<lparr>isProcessing := True\<rparr>"
    have c2: "chatOnly env base urls ?st2"
      using c1 by (rule chatOnly_frame) simp_all
    have b: "getConfiguredOpenAIBase env ?st2 = base"
      using c2 by (rule chatOnly_D(2))
    have p: "fst (getStoredOpenAiPreference base ?st2) = Some Chat"
      using c2 by (rule chatOnly_D(1))
    let ?st3 = "snd (getStoredOpenAiPreference base ?st2)"
    have s3: "?st3 = ?st2\<lparr>openAiEndpointPreference := (openAiEndpointPreference ?st2)(base \<mapsto> Chat)\<rparr>"
      using p by (rule getStored_snd)
    have m3: "openAiEndpointPreference ?st3 base = Some Chat"
      by (subst s3) simp
    have l3: "localStorage ?st3 = localStorage ?st2" and t3: "trace ?st3 = trace ?st2"
      by (subst s3, simp)+
    obtain n where n: "requestUrls (trace ?st2) = urls @ replicate n (buildApiUrl env base ''/chat/completions'')"
      using chatOnly_D(3) [OF c2] by blast
    have "getStoredOpenAiPreference base ?st3 = (Some Chat, ?st3)"
      using m3 by (rule getStored_memory)
    then have p3: "fst (getStoredOpenAiPreference base ?st3) = Some Chat"
      and s4: "snd (getStoredOpenAiPreference base ?st3) = ?st3"
      by (simp_all only: fst_conv snd_conv)
    have b3: "getConfiguredOpenAIBase env ?st3 = base"
      using getConfiguredOpenAIBase_cong [OF l3, of env] b by (rule trans)
    have r3: "requestUrls (trace ?st3) = urls @ replicate n (buildApiUrl env base ''/chat/completions'')"
      using n by (simp only: t3)
    have c3: "chatOnly env base urls ?st3"
      using p3 b3 r3 by (rule chatOnly_I)
    have cand: "getOpenAIEndpointCandidates env base ?st2 =
        ([(buildApiUrl env base ''/chat/completions'', Chat)], ?st3)"
      unfolding candidates_no_suffix [OF assms(1)] by (simp add: p)
    let ?run = "withRetry (maxRetries env) (shouldRetry env)
        (tryEndpoints apiKey model (buildMessages (getReasoningPrompt env txt agentName cfg)) cfg base
           [(buildApiUrl env base ''/chat/completions'', Chat)] None) ?st3"
    have c5: "chatOnly env base urls (snd ?run)"
      using chatOnly_tryEndpoints c3 by (rule withRetry_invariant)
    have c6: "chatOnly env base urls ((snd ?run)\<lparr>isProcessing := False\<rparr>)"
      using c5 by (rule chatOnly_frame) simp_all
    have "processWithOpenAI env txt model agentName cfg st =
            (case ?run of
               (Inl e, st5) \<Rightarrow> (Inl e, st5\<lparr>isProcessing := False\<rparr>)
             | (Inr response, st5) \<Rightarrow> (extractOpenAiText response txt, st5\<lparr>isProcessing := False\<rparr>))"
      unfolding processWithOpenAI_def Let_def k Inr
      using False by (simp only: if_False prod.case sum.case b cand s4 fst_conv snd_conv)
    then have "snd (processWithOpenAI env txt model agentName cfg st) = (snd ?run)\<lparr>isProcessing := False\<rparr>"
      by (simp split: prod.split sum.split)
    then show ?thesis using c6 by (simp only:)
  qed
qed

text \<open>
  Claim C4, as the source has it. A base URL that ends, in any letter case, in
  \<open>/responses\<close> or \<open>/chat/completions\<close> has itself as its one candidate, of that
  shape. Any other base URL has the one chat candidate when the stored preference is chat,
  and otherwise the responses candidate followed by the chat candidate. The stored
  preference is the entry of the map in memory when there is one, and otherwise the entry
  of the stored JSON object. For a base URL without such a suffix: once it is marked chat,
  the candidates are the chat candidate alone; and a call of the OpenAI driver that finds
  it marked chat sends requests to the chat endpoint only and leaves it marked chat, with
  the configured base URL unchanged, so the same holds for the call after it.
\<close>

theorem endpoint_candidates:
  "(endsWith (toLowerCase base) ''/responses'' \<longrightarrow>
      getOpenAIEndpointCandidates env base st = ([(base, Responses)], st)) \<and>
   (\<not> endsWith (toLowerCase base) ''/responses'' \<and> endsWith (toLowerCase base) ''/chat/completions'' \<longrightarrow>
      getOpenAIEndpointCandidates env base st = ([(base, Chat)], st)) \<and>
   (\<not> hasShapeSuffix base \<and> fst (getStoredOpenAiPreference base st) = Some Chat \<longrightarrow>
      fst (getOpenAIEndpointCandidates env base st) =
        [(buildApiUrl env base ''/chat/completions'', Chat)]) \<and>
   (\<not> hasShapeSuffix base \<and> fst (getStoredOpenAiPreference base st) \<noteq> Some Chat \<longrightarrow>
      fst (getOpenAIEndpointCandidates env base st) =
        [(buildApiUrl env base ''/responses'', Responses),
         (buildApiUrl env base ''/chat/completions'', Chat)]) \<and>
   (openAiEndpointPreference st base = Some p \<longrightarrow>
      fst (getStoredOpenAiPreference base st) = Some p) \<and>
   (openAiEndpointPreference st base = None \<and> localStorage st = Some ls \<and>
    endpointPreferenceItem ls = Item (JObj kvs) \<and> map_of kvs base = Some (JStr ''chat'') \<longrightarrow>
      fst (getStoredOpenAiPreference base st) = Some Chat) \<and>
   (\<not> hasShapeSuffix base \<longrightarrow>
      fst (getOpenAIEndpointCandidates env base (rememberOpenAiPreference base Chat st)) =
        [(buildApiUrl env base ''/chat/completions'', Chat)]) \<and>
   (\<not> hasShapeSuffix base \<and> getConfiguredOpenAIBase env st = base \<and>
    fst (getStoredOpenAiPreference base st) = Some Chat \<longrightarrow>
      (\<exists>k. requestUrls (trace (snd (processWithOpenAI env txt model agentName cfg st))) =
            requestUrls (trace st) @ replicate k (buildApiUrl env base ''/chat/completions'')) \<and>
      fst (getStoredOpenAiPreference base (snd (processWithOpenAI env txt model agentName cfg st))) =
        Some Chat \<and>
      getConfiguredOpenAIBase env (snd (processWithOpenAI env txt model agentName cfg st)) = base)"
proof -
  have marked: "\<not> hasShapeSuffix base \<Longrightarrow>
      fst (getOpenAIEndpointCandidates env base (rememberOpenAiPreference base Chat st)) =
        [(buildApiUrl env base ''/chat/completions'', Chat)]"
  proof -
    assume n: "\<not> hasShapeSuffix base"
    have "getStoredOpenAiPreference base (rememberOpenAiPreference base Chat st) =
            (Some Chat, rememberOpenAiPreference base Chat st)"
      using remember_memory by (rule getStored_memory)
    then show ?thesis
      unfolding candidates_no_suffix [OF n] by simp
  qed
  have stable: "\<not> hasShapeSuffix base \<and> getConfiguredOpenAIBase env st = base \<and>
        fst (getStoredOpenAiPreference base st) = Some Chat \<Longrightarrow>
      (\<exists>k. requestUrls (trace (snd (processWithOpenAI env txt model agentName cfg st))) =
            requestUrls (trace st) @ replicate k (buildApiUrl env base ''/chat/completions'')) \<and>
      fst (getStoredOpenAiPreference base (snd (processWithOpenAI env txt model agentName cfg st))) =
        Some Chat \<and>
      getConfiguredOpenAIBase env (snd (processWithOpenAI env txt model agentName cfg st)) = base"
  proof -
    assume a: "\<not> hasShapeSuffix base \<and> getConfiguredOpenAIBase env st = base \<and>
        fst (getStoredOpenAiPreference base st) = Some Chat"
    have "requestUrls (trace st) =
            requestUrls (trace st) @ replicate 0 (buildApiUrl env base ''/chat/completions'')"
      by simp
    with a have "chatOnly env base (requestUrls (trace st)) st"
      by (intro chatOnly_I) blast+
    with a have c: "chatOnly env base (requestUrls (trace st))
                      (snd (processWithOpenAI env txt model agentName cfg st))"
      by (intro chatOnly_processWithOpenAI) blast+
    show ?thesis
      using chatOnly_D [OF c] by (intro conjI)
  qed
  have first: "endsWith (toLowerCase base) ''/responses'' \<longrightarrow>
      getOpenAIEndpointCandidates env base st = ([(base, Responses)], st)"
    and second: "\<not> endsWith (toLowerCase base) ''/responses'' \<and>
      endsWith (toLowerCase base) ''/chat/completions'' \<longrightarrow>
      getOpenAIEndpointCandidates env base st = ([(base, Chat)], st)"
    using candidates_cases [of base env st] by blast+
  have third: "\<not> hasShapeSuffix base \<and> fst (getStoredOpenAiPreference base st) = Some Chat \<longrightarrow>
      fst (getOpenAIEndpointCandidates env base st) =
        [(buildApiUrl env base ''/chat/completions'', Chat)]"
    and fourth: "\<not> hasShapeSuffix base \<and> fst (getStoredOpenAiPreference base st) \<noteq> Some Chat \<longrightarrow>
      fst (getOpenAIEndpointCandidates env base st) =
        [(buildApiUrl env base ''/responses'', Responses),
         (buildApiUrl env base ''/chat/completions'', Chat)]"
    by (simp_all add: candidates_no_suffix)
  have memory: "openAiEndpointPreference st base = Some p \<longrightarrow>
      fst (getStoredOpenAiPreference base st) = Some p"
    by (simp add: getStored_memory)
  have durable: "openAiEndpointPreference st base = None \<and> localStorage st = Some ls \<and>
      endpointPreferenceItem ls = Item (JObj kvs) \<and> map_of kvs base = Some (JStr ''chat'') \<longrightarrow>
      fst (getStoredOpenAiPreference base st) = Some Chat"
    using getStored_durable [of st base ls kvs] by blast
  show ?thesis
    using first second third fourth memory durable marked stable by (intro conjI impI) blast+
qed

theorem endpoint_candidates_witness:
  "fst (getOpenAIEndpointCandidates exampleEnv ''https://proxy.example/v1/Responses'' (idle [])) =
     [(''https://proxy.example/v1/Responses'', Responses)] \<and>
   fst (getOpenAIEndpointCandidates exampleEnv ''https://proxy.example/v1/chat/completions'' (idle [])) =
     [(''https://proxy.example/v1/chat/completions'', Chat)] \<and>
   fst (getOpenAIEndpointCandidates exampleEnv defaultBase (idle [])) =
     [(''https://api.openai.com/v1/responses'', Responses),
      (''https://api.openai.com/v1/chat/completions'', Chat)] \<and>
   fst (getOpenAIEndpointCandidates exampleEnv defaultBase markedChat) =
     [(''https://api.openai.com/v1/chat/completions'', Chat)] \<and>
   (\<exists>k. requestUrls (trace (snd (processWithOpenAI exampleEnv ''hello'' ''gpt-4o'' None noConfig markedChat))) =
         replicate k ''https://api.openai.com/v1/chat/completions'') \<and>
   fst (getStoredOpenAiPreference defaultBase
          (snd (processWithOpenAI exampleEnv ''hello'' ''gpt-4o'' None noConfig markedChat))) = Some Chat"
proof -
  have s1: "endsWith (toLowerCase ''https://proxy.example/v1/Responses'') ''/responses''"
    by code_simp
  have s2: "\<not> endsWith (toLowerCase ''https://proxy.example/v1/chat/completions'') ''/responses'' \<and>
            endsWith (toLowerCase ''https://proxy.example/v1/chat/completions'') ''/chat/completions''"
    by code_simp
  have n: "\<not> hasShapeSuffix defaultBase" by code_simp
  have p0: "fst (getStoredOpenAiPreference defaultBase (idle [])) \<noteq> Some Chat"
    by (simp add: getStoredOpenAiPreference_def idle_def)
  have p1: "fst (getStoredOpenAiPreference defaultBase markedChat) = Some Chat"
    unfolding markedChat_def using remember_memory by (simp add: getStored_memory)
  have "getConfiguredOpenAIBase exampleEnv markedChat =
          getConfiguredOpenAIBase exampleEnv (idle [reply 200 (JObj [])])"
    unfolding markedChat_def by (rule getConfiguredOpenAIBase_remember)
  also have "\<dots> = defaultBase"
    by (simp add: getConfiguredOpenAIBase_def idle_def exampleEnv_def defaultBase_def trim_def)
  finally have b: "getConfiguredOpenAIBase exampleEnv markedChat = defaultBase" .
  have t: "trace markedChat = []"
    using remember_frame [of defaultBase Chat "idle [reply 200 (JObj [])]"]
    by (simp add: markedChat_def idle_def)
  have u: "buildApiUrl exampleEnv defaultBase p = ''https://api.openai.com/v1'' @ p" for p
    by (simp add: exampleEnv_def defaultBase_def)
  show ?thesis
    using endpoint_candidates [of "''https://proxy.example/v1/Responses''" exampleEnv "idle []"]
      endpoint_candidates [of "''https://proxy.example/v1/chat/completions''" exampleEnv "idle []"]
      endpoint_candidates [of defaultBase exampleEnv "idle []"]
      endpoint_candidates [of defaultBase exampleEnv markedChat Chat _ _ "''hello''" "''gpt-4o''" None noConfig]
      s1 s2 n p0 p1 b t u
    by simp
qed

text \<open>
  Against C4 as stated: the stored base URL \<open>https://proxy.example/v1/responses\<close> ends
  in \<open>/responses\<close>. A first call gets a 404 from it and marks it chat. The next call
  with the same base URL still sends its request to that URL, in the responses shape.
\<close>

theorem marked_chat_still_tries_responses_counterexample:
  "openAiEndpointPreference
     (snd (processWithOpenAI exampleEnv ''hello'' ''gpt-4o'' None noConfig
             ((withCustomBase responsesBase)\<lparr>network := [reply 404 (JObj [])]\<rparr>)))
     responsesBase = Some Chat \<and>
   trace (snd (processWithOpenAI exampleEnv ''hello'' ''gpt-4o'' None noConfig
     ((snd (processWithOpenAI exampleEnv ''hello'' ''gpt-4o'' None noConfig
              ((withCustomBase responsesBase)\<lparr>network := [reply 404 (JObj [])]\<rparr>)))
        \<lparr>network := [reply 200 (JObj [])], trace := []\<rparr>))) =
     [KeyLookup Openai,
      Fetched responsesBase (bearerHeaders ''sk-test'')
        (openAiRequestBody ''gpt-4o'' (buildMessages ''hello'') noConfig Responses)]"
  by code_simp

end
